theory Spec2Isabelle
  imports Main
begin

text \<open>
  A model of the RunAnywhere Agent command-line wrapper: the access gate of \<open>auth.py\<close>,
  the credential resolver of \<open>config.py\<close>, the prompt augmenter of \<open>prompts/patch.py\<close>
  and the orchestrator of \<open>__main__.py\<close>. A Python function that reads or changes the
  process state is a function of the same name from the world to its result and the new
  world; a function that may raise returns a sum, with \<open>Inl\<close> for the exception. The
  model comes first, the properties after it.
\<close>

section \<open>Python values\<close>

subsection \<open>Strings\<close>

text \<open>
  A Python \<open>str\<close> is modelled as a \<open>string\<close>, each \<open>char\<close> standing for one code
  point in the range U+0000 .. U+00FF. On that range \<open>str.isspace\<close> holds for the
  code points 9-13, 28-32, 133 and 160, and \<open>str.lower\<close> moves A-Z and the capital
  letters U+00C0 .. U+00DE (the multiplication sign U+00D7 apart) up by 32.
\<close>

definition isspace :: "char \<Rightarrow> bool" where
  "isspace c =
     (let n = (of_char c :: nat)
      in (9 \<le> n \<and> n \<le> 13) \<or> (28 \<le> n \<and> n \<le> 32) \<or> n = 133 \<or> n = 160)"

definition strip :: "string \<Rightarrow> string" where
  "strip s = rev (dropWhile isspace (rev (dropWhile isspace s)))"

definition lower_char :: "char \<Rightarrow> char" where
  "lower_char c =
     (let n = (of_char c :: nat)
      in if (65 \<le> n \<and> n \<le> 90) \<or> (192 \<le> n \<and> n \<le> 222 \<and> n \<noteq> 215)
         then char_of (n + 32) else c)"

definition lower :: "string \<Rightarrow> string" where
  "lower s = map lower_char s"

definition startswith :: "string \<Rightarrow> string \<Rightarrow> bool" where
  "startswith s p = (take (length p) s = p)"

text \<open>Truth value of an \<open>Optional[str]\<close>: \<open>None\<close> and the empty string are false.\<close>

fun truthy :: "string option \<Rightarrow> bool" where
  "truthy None = False"
| "truthy (Some s) = (s \<noteq> [])"

text \<open>Decimal rendering of an integer, as an f-string does it.\<close>

definition digit_char :: "nat \<Rightarrow> char" where
  "digit_char d = char_of (48 + d)"

function str_nat :: "nat \<Rightarrow> string" where
  "str_nat n = (if n < 10 then [digit_char n] else str_nat (n div 10) @ [digit_char (n mod 10)])"
  by pat_completeness auto
termination
  by (relation "measure (\<lambda>n. n)") auto

declare str_nat.simps [simp del]

definition str_int :: "int \<Rightarrow> string" where
  "str_int i = (if i < 0 then CHR ''-'' # str_nat (nat (- i)) else str_nat (nat i))"

subsection \<open>Text files\<close>

text \<open>
  \<open>Path.read_text\<close> and \<open>Path.write_text\<close> open the file in text mode with the default
  \<open>newline=None\<close>. On reading, a carriage return followed by a line feed, a carriage
  return alone and a line feed alone each come back as one line feed; on writing, each
  line feed of the text goes to the file as \<open>os.linesep\<close>.
\<close>

fun universal_newlines :: "string \<Rightarrow> string" where
  "universal_newlines [] = []"
| "universal_newlines [c] = [if c = CHR 0x0D then CHR 0x0A else c]"
| "universal_newlines (c # d # cs) =
     (if c = CHR 0x0D \<and> d = CHR 0x0A then CHR 0x0A # universal_newlines cs
      else if c = CHR 0x0D then CHR 0x0A # universal_newlines (d # cs)
      else c # universal_newlines (d # cs))"

definition write_newlines :: "string \<Rightarrow> string \<Rightarrow> string" where
  "write_newlines sep s = concat (map (\<lambda>c. if c = CHR 0x0A then sep else [c]) s)"

text \<open>
  What a file holds, as far as reading it as text goes: characters, or bytes that the
  decoder refuses (with the message of the \<open>UnicodeDecodeError\<close>).
\<close>

datatype content = Text string | Undecodable string

subsection \<open>Exceptions\<close>

text \<open>
  An exception is its class and its message (\<open>str(e)\<close>); \<open>SystemExit\<close> carries the exit
  code. \<open>ConnectTimeout\<close> inherits from both \<open>Timeout\<close> and \<open>ConnectionError\<close>, and
  \<open>requests.exceptions.JSONDecodeError\<close> (raised by \<open>Response.json\<close> since
  requests 2.27) is a \<open>RequestException\<close>. \<open>SystemExit\<close> and \<open>KeyboardInterrupt\<close> are not instances of
  \<open>Exception\<close>; \<open>ValueError\<close> and \<open>UnicodeDecodeError\<close> are, and neither is an
  \<open>OSError\<close>.
\<close>

datatype exn_class =
    EOFError | KeyboardInterrupt | TypeError | AttributeError | ImportError | OSError
  | ValueError | UnicodeDecodeError
  | ReadTimeout | ConnectTimeout | ConnectionError | JSONDecodeError | RequestException
  | Exception

datatype exn = SystemExit int | Error exn_class string

fun is_Timeout :: "exn \<Rightarrow> bool" where
  "is_Timeout (Error c m) = (c = ReadTimeout \<or> c = ConnectTimeout)"
| "is_Timeout (SystemExit n) = False"

fun is_ConnectionError :: "exn \<Rightarrow> bool" where
  "is_ConnectionError (Error c m) = (c = ConnectTimeout \<or> c = ConnectionError)"
| "is_ConnectionError (SystemExit n) = False"

fun is_RequestException :: "exn \<Rightarrow> bool" where
  "is_RequestException (Error c m) =
     (c = ReadTimeout \<or> c = ConnectTimeout \<or> c = ConnectionError \<or> c = JSONDecodeError
      \<or> c = RequestException)"
| "is_RequestException (SystemExit n) = False"

fun is_ImportError :: "exn \<Rightarrow> bool" where
  "is_ImportError (Error c m) = (c = ImportError)"
| "is_ImportError (SystemExit n) = False"

fun is_KeyboardInterrupt :: "exn \<Rightarrow> bool" where
  "is_KeyboardInterrupt (Error c m) = (c = KeyboardInterrupt)"
| "is_KeyboardInterrupt (SystemExit n) = False"

fun is_Exception :: "exn \<Rightarrow> bool" where
  "is_Exception (Error c m) = (c \<noteq> KeyboardInterrupt)"
| "is_Exception (SystemExit n) = False"

fun str_exn :: "exn \<Rightarrow> string" where
  "str_exn (Error c m) = m"
| "str_exn (SystemExit n) = str_int n"

subsection \<open>JSON values and HTTP\<close>

datatype json =
    JNull | JBool bool | JNumber | JString string | JArray "json list"
  | JObject "(string \<times> json) list"

text \<open>\<open>len(x)\<close> of a decoded JSON value: defined on strings, lists and dicts only.\<close>

fun len :: "json \<Rightarrow> exn + nat" where
  "len (JString s) = Inr (length s)"
| "len (JArray xs) = Inr (length xs)"
| "len (JObject kvs) = Inr (length (remdups (map fst kvs)))"
| "len JNull = Inl (Error TypeError ''object of type 'NoneType' has no len()'')"
| "len (JBool b) = Inl (Error TypeError ''object of type 'bool' has no len()'')"
| "len JNumber = Inl (Error TypeError ''object of type 'int' has no len()'')"

text \<open>
  A response is its status code and what \<open>response.json()\<close> gives: the decoded value, or
  the message of the \<open>JSONDecodeError\<close> it raises on a body that is not JSON.
\<close>

record response =
  status_code :: int
  json_result :: "string + json"

record request =
  url :: string
  params :: "(string \<times> string) list"
  headers :: "(string \<times> string) list"
  timeout :: nat

datatype http_outcome = Raises exn | Responds response

subsection \<open>The host tool\<close>

text \<open>
  The host tool (aider) is a parameter. What the wrapper touches of it: the imports it
  makes (\<open>import_error\<close> gives the message of the \<open>ImportError\<close> an import raises, if it
  does), the attributes that its classes and modules define themselves (\<open>attrs\<close>, keyed by
  owner and attribute name; an absent key is an attribute that the owner does not define),
  the classes that each class inherits from, in method resolution order (\<open>ancestors\<close>),
  and the entry point it calls at the end, whose outcome may depend on the arguments and
  the environment.

  An attribute value is a string, a list of messages, or an object of some other type,
  given by the name of the type; such an object is taken to support neither \<open>+\<close> with a
  string nor \<open>extend\<close>.
\<close>

type_synonym message = "string \<times> string"

datatype pyval = Str string | Messages "message list" | Object string

record host =
  import_error :: "string \<Rightarrow> string option"
  attrs :: "string \<times> string \<Rightarrow> pyval option"
  ancestors :: "string \<Rightarrow> string list"
  aider_main :: "string list \<Rightarrow> (string \<Rightarrow> string option) \<Rightarrow> exn + int option"

section \<open>The world\<close>

text \<open>
  Everything the program reads or changes: the process environment and arguments,
  standard input (the lines still to be read) and output (one entry per \<open>print\<close> or
  prompt), the cache file \<open>~/.runanywhere/auth_cache\<close> (\<open>None\<close> when it does not
  exist), the allow-list service with the log of the requests sent to it, and the host.
  \<open>fs_fault\<close> gives, for each kind of file operation, the message of the \<open>OSError\<close> it
  raises, if it does; opening the file for writing and writing to it are two operations,
  because the first leaves the file as it was and the second does not.

  The remaining fields are inputs of the program text itself: \<open>os.linesep\<close>, the table
  \<open>_EMBEDDED_KEYS\<close> (which the source ships with placeholders to be replaced), the
  library function \<open>base64.b64decode(s).decode("utf-8")\<close> (\<open>None\<close> where it raises),
  \<open>__version__\<close>, the banner text built from it, the result of
  \<open>get_sdk_documentation()\<close> (which returns a string whatever it finds on disk) and the
  constant \<open>RUNANYWHERE_EXAMPLE_MESSAGES\<close>.

  The process is taken to run with UTF-8 as the encoding of its files, its environment and
  its terminal, and with a home directory that can be determined. Every string of the
  model can then be written to a file, to the environment and to standard output, so that
  \<open>print\<close> and \<open>write_text\<close> raise no \<open>UnicodeEncodeError\<close>.
\<close>

datatype fs_op = Exists | ReadText | Mkdir | OpenWrite | WriteText | Unlink

record world =
  environ :: "string \<Rightarrow> string option"
  argv :: "string list"
  stdin :: "string list"
  stdout :: "string list"
  cache_file :: "content option"
  fs_fault :: "fs_op \<Rightarrow> string option"
  linesep :: string
  net :: "request \<Rightarrow> http_outcome"
  sent :: "request list"
  aider :: host
  host_calls :: "string list list"
  embedded_keys :: "string \<Rightarrow> string option"
  b64decode_utf8 :: "string \<Rightarrow> string option"
  version :: string
  banner :: string
  sdk_docs :: string
  EXAMPLE_MESSAGES :: "message list"

definition print :: "string \<Rightarrow> world \<Rightarrow> world" where
  "print s w = w\<lparr>stdout := stdout w @ [s]\<rparr>"

text \<open>Several \<open>print\<close> calls in a row, in the order of the list.\<close>

definition prints :: "string list \<Rightarrow> world \<Rightarrow> world" where
  "prints ls w = foldl (\<lambda>w' l. print l w') w ls"

text \<open>\<open>input(prompt)\<close> writes the prompt and reads a line; at end of input it raises.\<close>

definition input :: "string \<Rightarrow> world \<Rightarrow> (exn + string) \<times> world" where
  "input prompt w =
     (case stdin w of
        [] \<Rightarrow> (Inl (Error EOFError ''EOF when reading a line''), print prompt w)
      | l # ls \<Rightarrow> (Inr l, (print prompt w)\<lparr>stdin := ls\<rparr>))"

definition environ_get :: "world \<Rightarrow> string \<Rightarrow> string option" where
  "environ_get w k = environ w k"

definition environ_get_default :: "world \<Rightarrow> string \<Rightarrow> string \<Rightarrow> string" where
  "environ_get_default w k d = (case environ w k of None \<Rightarrow> d | Some v \<Rightarrow> v)"

section \<open>Access gate (\<open>auth.py\<close>)\<close>

text \<open>
  \<open>SUPABASE_URL\<close> and \<open>SUPABASE_ANON_KEY\<close> are read from the environment when the
  module is loaded; nothing in the program writes those variables.
\<close>

definition SUPABASE_URL :: "world \<Rightarrow> string" where
  "SUPABASE_URL w =
     environ_get_default w ''RUNANYWHERE_SUPABASE_URL'' ''https://your-project.supabase.co''"

definition SUPABASE_ANON_KEY :: "world \<Rightarrow> string" where
  "SUPABASE_ANON_KEY w =
     environ_get_default w ''RUNANYWHERE_SUPABASE_KEY'' ''your-anon-key-here''"

text \<open>
  \<open>get_cached_email\<close>: an \<open>OSError\<close> of \<open>exists\<close> or \<open>read_text\<close> is swallowed; a
  \<open>UnicodeDecodeError\<close> of \<open>read_text\<close> is not an \<open>OSError\<close> and leaves the function.
\<close>

definition get_cached_email :: "world \<Rightarrow> exn + string option" where
  "get_cached_email w =
     (case fs_fault w Exists of
        Some e \<Rightarrow> Inr None
      | None \<Rightarrow>
          (case cache_file w of
             None \<Rightarrow> Inr None
           | Some f \<Rightarrow>
               (case fs_fault w ReadText of
                  Some e \<Rightarrow> Inr None
                | None \<Rightarrow>
                    (case f of
                       Undecodable m \<Rightarrow> Inl (Error UnicodeDecodeError m)
                     | Text txt \<Rightarrow> Inr (Some (strip (universal_newlines txt)))))))"

text \<open>
  \<open>save_email_to_cache\<close>: \<open>write_text\<close> opens the file, which empties it, and then
  writes. When the writing fails after that, nothing of the text is taken to have reached
  the file.
\<close>

definition save_email_to_cache :: "string \<Rightarrow> world \<Rightarrow> world" where
  "save_email_to_cache email w =
     (case fs_fault w Mkdir of
        Some e \<Rightarrow> print (''Warning: Could not save auth cache: '' @ e) w
      | None \<Rightarrow>
          (case fs_fault w OpenWrite of
             Some e \<Rightarrow> print (''Warning: Could not save auth cache: '' @ e) w
           | None \<Rightarrow>
               (case fs_fault w WriteText of
                  Some e \<Rightarrow>
                    print (''Warning: Could not save auth cache: '' @ e)
                      (w\<lparr>cache_file := Some (Text [])\<rparr>)
                | None \<Rightarrow>
                    w\<lparr>cache_file := Some (Text (write_newlines (linesep w) email))\<rparr>)))"

definition clear_auth_cache :: "world \<Rightarrow> world" where
  "clear_auth_cache w =
     (case fs_fault w Exists of
        Some e \<Rightarrow> w
      | None \<Rightarrow>
          (case cache_file w of
             None \<Rightarrow> w
           | Some f \<Rightarrow>
               (case fs_fault w Unlink of
                  Some e \<Rightarrow> w
                | None \<Rightarrow> w\<lparr>cache_file := None\<rparr>)))"

text \<open>The one request of the program: a GET on the allow-list table.\<close>

definition auth_request :: "string \<Rightarrow> world \<Rightarrow> request" where
  "auth_request email w =
     \<lparr>url = SUPABASE_URL w @ ''/rest/v1/authorized_users'',
      params = [(''email'', ''eq.'' @ email)],
      headers = [(''apikey'', SUPABASE_ANON_KEY w),
                 (''Authorization'', ''Bearer '' @ SUPABASE_ANON_KEY w),
                 (''Content-Type'', ''application/json'')],
      timeout = 10\<rparr>"

definition requests_get :: "request \<Rightarrow> world \<Rightarrow> (exn + response) \<times> world" where
  "requests_get rq w =
     (case net w rq of
        Raises e \<Rightarrow> (Inl e, w\<lparr>sent := sent w @ [rq]\<rparr>)
      | Responds r \<Rightarrow> (Inr r, w\<lparr>sent := sent w @ [rq]\<rparr>))"

definition response_json :: "response \<Rightarrow> exn + json" where
  "response_json r =
     (case json_result r of
        Inl m \<Rightarrow> Inl (Error JSONDecodeError m)
      | Inr v \<Rightarrow> Inr v)"

text \<open>The body of the \<open>try\<close> block of \<open>verify_email\<close>.\<close>

definition verify_email_try :: "string \<Rightarrow> world \<Rightarrow> (exn + bool) \<times> world" where
  "verify_email_try email w =
     (case requests_get (auth_request email w) w of
        (Inl e, w1) \<Rightarrow> (Inl e, w1)
      | (Inr r, w1) \<Rightarrow>
          if status_code r = 200
          then (case response_json r of
                  Inl e \<Rightarrow> (Inl e, w1)
                | Inr users \<Rightarrow>
                    (case len users of
                       Inl e \<Rightarrow> (Inl e, w1)
                     | Inr n \<Rightarrow> (Inr (0 < n), w1)))
          else (Inr False,
                print (''Warning: Auth check failed with status '' @ str_int (status_code r)) w1))"

definition verify_email :: "string \<Rightarrow> world \<Rightarrow> (exn + bool) \<times> world" where
  "verify_email email0 w =
     (if email0 = [] \<or> strip email0 = [] then (Inr False, w)
      else
        let email = lower (strip email0)
        in if environ_get w ''RUNANYWHERE_DEV_MODE'' = Some ''1''
           then (Inr True, print ''[DEV MODE] Skipping email verification'' w)
           else
             (case verify_email_try email w of
                (Inr b, w1) \<Rightarrow> (Inr b, w1)
              | (Inl e, w1) \<Rightarrow>
                  if is_Timeout e
                  then (Inr False,
                        print ''Warning: Authentication server timeout. Please try again.'' w1)
                  else if is_ConnectionError e
                  then (Inr False,
                        prints
                          [''Warning: Could not connect to authentication server.'',
                           ''Please check your internet connection.'']
                          w1)
                  else if is_RequestException e
                  then (Inr False, print (''Warning: Authentication error: '' @ str_exn e) w1)
                  else (Inl e, w1)))"

text \<open>The \<open>while True\<close> loop of \<open>prompt_for_email\<close>: one iteration per line read.\<close>

function email_loop :: "world \<Rightarrow> (exn + string) \<times> world" where
  "email_loop w =
     (case input ''Email: '' w of
        (Inl e, w1) \<Rightarrow> (Inl e, w1)
      | (Inr line, w1) \<Rightarrow>
          let email = strip line
          in if email = []
             then email_loop (print ''Email cannot be empty. Please try again.'' w1)
             else if CHR ''@'' \<notin> set email \<or> CHR ''.'' \<notin> set email
             then email_loop (print ''Please enter a valid email address.'' w1)
             else (Inr email, w1))"
  by pat_completeness auto
termination
  by (relation "measure (\<lambda>w. length (stdin w))")
     (auto simp: input_def print_def split: list.splits)

declare email_loop.simps [simp del]

text \<open>The part of \<open>prompt_for_email\<close> after the cached email: environment, then prompt.\<close>

definition prompt_new_email :: "world \<Rightarrow> (exn + string) \<times> world" where
  "prompt_new_email w =
     (let env_email = environ_get w ''RUNANYWHERE_EMAIL''
      in if truthy env_email
         then (Inr (strip (the env_email)),
               print (''Using email from environment: '' @ the env_email) w)
         else email_loop
                (prints
                   [CHR ''\<newline>'' # replicate 60 CHR ''='',
                    ''  RunAnywhere Agent - Authentication Required'',
                    replicate 60 CHR ''='',
                    ''\<newline>Please enter your authorized email address.'',
                    ''Contact founders@runanywhere.ai if you need access.\<newline>'']
                   w))"

definition prompt_for_email :: "world \<Rightarrow> (exn + string) \<times> world" where
  "prompt_for_email w =
     (case get_cached_email w of
        Inl e \<Rightarrow> (Inl e, w)
      | Inr cached_email \<Rightarrow>
          if truthy cached_email
          then
            (case input ''Press Enter to continue, or type 'new' for a different email: ''
                    (print (''Using cached email: '' @ the cached_email) w) of
               (Inl e, w1) \<Rightarrow> (Inl e, w1)
             | (Inr line, w1) \<Rightarrow>
                 if lower (strip line) \<noteq> ''new'' then (Inr (the cached_email), w1)
                 else prompt_new_email w1)
          else prompt_new_email w)"

definition check_mark :: string where
  "check_mark = [CHR 0xE2, CHR 0x9C, CHR 0x93]"

definition authenticate :: "world \<Rightarrow> (exn + string) \<times> world" where
  "authenticate w =
     (case prompt_for_email w of
        (Inl e, w1) \<Rightarrow> (Inl e, w1)
      | (Inr email, w1) \<Rightarrow>
          (case verify_email email (print ''\<newline>Verifying email...'' w1) of
             (Inl e, w2) \<Rightarrow> (Inl e, w2)
           | (Inr ok, w2) \<Rightarrow>
               if ok
               then (Inr email,
                     save_email_to_cache email
                       (print (check_mark @ '' Email verified: '' @ email) w2))
               else (Inl (SystemExit 1),
                     clear_auth_cache
                       (prints
                          [CHR ''\<newline>'' # replicate 60 CHR ''='',
                           ''  Access Denied'',
                           replicate 60 CHR ''='',
                           ''\<newline>The email '' @ [CHR 0x27] @ email @ [CHR 0x27]
                             @ '' is not authorized to use RunAnywhere Agent.'',
                           ''\<newline>To get access:'',
                           ''  1. Visit https://www.runanywhere.ai'',
                           ''  2. Sign up for an account'',
                           ''  3. Contact founders@runanywhere.ai for agent access'',
                           []]
                          w2))))"

definition logout :: "world \<Rightarrow> world" where
  "logout w =
     print ''Logged out successfully. You will need to re-authenticate next time.''
       (clear_auth_cache w)"

section \<open>Credential resolver (\<open>config.py\<close>)\<close>

definition DEFAULT_MODEL :: string where
  "DEFAULT_MODEL = ''sonnet''"

text \<open>\<open>_EMBEDDED_KEYS.get(name, "")\<close>.\<close>

definition embedded_get :: "world \<Rightarrow> string \<Rightarrow> string" where
  "embedded_get w name = (case embedded_keys w name of None \<Rightarrow> [] | Some v \<Rightarrow> v)"

text \<open>
  \<open>_decode_key\<close>: the \<open>try\<close> block returns what the library decodes, and \<open>None\<close> where
  it raises.
\<close>

definition decode_key :: "world \<Rightarrow> string \<Rightarrow> string option" where
  "decode_key w encoded_key =
     (if encoded_key = [] \<or> startswith encoded_key ''REPLACE_WITH'' then None
      else (case b64decode_utf8 w encoded_key of
              Some key \<Rightarrow> Some key
            | None \<Rightarrow> None))"

definition get_anthropic_key :: "world \<Rightarrow> string option" where
  "get_anthropic_key w =
     (let env_key = environ_get w ''ANTHROPIC_API_KEY''
      in if truthy env_key then env_key
         else decode_key w (embedded_get w ''anthropic''))"

definition get_openai_key :: "world \<Rightarrow> string option" where
  "get_openai_key w =
     (let env_key = environ_get w ''OPENAI_API_KEY''
      in if truthy env_key then env_key
         else decode_key w (embedded_get w ''openai''))"

record key_status =
  anthropic_injected :: bool
  openai_injected :: bool
  anthropic_available :: bool
  openai_available :: bool

text \<open>
  \<open>os.environ[k] = v\<close>: a value with a NUL character is refused with a \<open>ValueError\<close>
  and the environment stays as it was.
\<close>

definition environ_set :: "string \<Rightarrow> string \<Rightarrow> world \<Rightarrow> (exn + unit) \<times> world" where
  "environ_set k v w =
     (if CHR 0x00 \<in> set v then (Inl (Error ValueError ''embedded null byte''), w)
      else (Inr (), w\<lparr>environ := (environ w)(k \<mapsto> v)\<rparr>))"

definition inject_api_keys :: "world \<Rightarrow> (exn + key_status) \<times> world" where
  "inject_api_keys w0 =
     (let status = \<lparr>anthropic_injected = False, openai_injected = False,
                     anthropic_available = False, openai_available = False\<rparr>
      in case
           (if \<not> truthy (environ_get w0 ''ANTHROPIC_API_KEY'')
            then
              (let anthropic_key = decode_key w0 (embedded_get w0 ''anthropic'')
               in if truthy anthropic_key
                  then (case environ_set ''ANTHROPIC_API_KEY'' (the anthropic_key) w0 of
                          (Inl e, w) \<Rightarrow> (Inl e, w)
                        | (Inr u, w) \<Rightarrow>
                            (Inr (status\<lparr>anthropic_injected := True,
                                          anthropic_available := True\<rparr>), w))
                  else (Inr status, w0))
            else (Inr (status\<lparr>anthropic_available := True\<rparr>), w0)) of
           (Inl e, w) \<Rightarrow> (Inl e, w)
         | (Inr status, w) \<Rightarrow>
             (if \<not> truthy (environ_get w ''OPENAI_API_KEY'')
              then
                (let openai_key = decode_key w (embedded_get w ''openai'')
                 in if truthy openai_key
                    then (case environ_set ''OPENAI_API_KEY'' (the openai_key) w of
                            (Inl e, w') \<Rightarrow> (Inl e, w')
                          | (Inr u, w') \<Rightarrow>
                              (Inr (status\<lparr>openai_injected := True,
                                            openai_available := True\<rparr>), w'))
                    else (Inr status, w))
              else (Inr (status\<lparr>openai_available := True\<rparr>), w)))"

text \<open>\<open>bool(anthropic_key or openai_key)\<close>: \<open>a or b\<close> is \<open>a\<close> when \<open>a\<close> is true, else \<open>b\<close>.\<close>

definition check_api_keys :: "world \<Rightarrow> bool" where
  "check_api_keys w =
     (let anthropic_key = get_anthropic_key w;
          openai_key = get_openai_key w
      in truthy (if truthy anthropic_key then anthropic_key else openai_key))"

definition get_default_model :: "world \<Rightarrow> string" where
  "get_default_model w =
     (let env_model = environ_get w ''RUNANYWHERE_DEFAULT_MODEL''
      in if truthy env_model then the env_model
         else if truthy (get_anthropic_key w) then DEFAULT_MODEL
         else if truthy (get_openai_key w) then ''gpt-4o''
         else DEFAULT_MODEL)"

definition cross_mark :: string where
  "cross_mark = [CHR 0xE2, CHR 0x9C, CHR 0x97]"

definition print_key_status :: "world \<Rightarrow> world" where
  "print_key_status w =
     (let anthropic_available = truthy (get_anthropic_key w);
          openai_available = truthy (get_openai_key w)
      in prints
           [''\<newline>API Key Status:'',
            ''  Anthropic (Claude): ''
              @ (if anthropic_available then check_mark @ '' Available''
                 else cross_mark @ '' Not configured''),
            ''  OpenAI (GPT):       ''
              @ (if openai_available then check_mark @ '' Available''
                 else cross_mark @ '' Not configured''),
            []]
           w)"

section \<open>Prompt augmenter (\<open>prompts/patch.py\<close>)\<close>

subsection \<open>Access to the host\<close>

text \<open>
  An \<open>import\<close> statement imports its names in order and raises at the first that
  fails.
\<close>

fun import_all :: "string list \<Rightarrow> world \<Rightarrow> exn + unit" where
  "import_all [] w = Inr ()"
| "import_all (n # ns) w =
     (case import_error (aider w) n of
        Some m \<Rightarrow> Inl (Error ImportError m)
      | None \<Rightarrow> import_all ns w)"

text \<open>
  Reading an attribute of a class looks through the class and then its ancestors, in
  method resolution order, and takes the first that defines the attribute; \<open>lookup\<close>
  returns that class with the value. If none defines it, the read raises
  \<open>AttributeError\<close>. Writing an attribute of a class creates or replaces the attribute
  on that class itself, whatever its ancestors define. (A class that its module does not
  have is one that defines nothing; the text of the \<open>AttributeError\<close> then names the
  module instead, which the model does not render.)
\<close>

fun lookup ::
  "(string \<times> string \<Rightarrow> pyval option) \<Rightarrow> string list \<Rightarrow> string \<Rightarrow> (string \<times> pyval) option"
where
  "lookup tbl [] a = None"
| "lookup tbl (c # cs) a =
     (case tbl (c, a) of
        Some v \<Rightarrow> Some (c, v)
      | None \<Rightarrow> lookup tbl cs a)"

definition mro :: "string \<Rightarrow> world \<Rightarrow> string list" where
  "mro owner w = owner # ancestors (aider w) owner"

definition class_attr :: "string \<Rightarrow> string \<Rightarrow> world \<Rightarrow> (string \<times> pyval) option" where
  "class_attr owner a w = lookup (attrs (aider w)) (mro owner w) a"

definition hasattr :: "string \<Rightarrow> string \<Rightarrow> world \<Rightarrow> bool" where
  "hasattr owner a w = (class_attr owner a w \<noteq> None)"

definition getattr :: "string \<Rightarrow> string \<Rightarrow> world \<Rightarrow> exn + pyval" where
  "getattr owner a w =
     (case class_attr owner a w of
        None \<Rightarrow>
          Inl (Error AttributeError
                 (''type object '' @ [CHR 0x27] @ owner @ [CHR 0x27] @ '' has no attribute ''
                  @ [CHR 0x27] @ a @ [CHR 0x27]))
      | Some (c, v) \<Rightarrow> Inr v)"

definition setattr :: "string \<Rightarrow> string \<Rightarrow> pyval \<Rightarrow> world \<Rightarrow> world" where
  "setattr owner a v w = w\<lparr>aider := (aider w)\<lparr>attrs := (attrs (aider w))((owner, a) \<mapsto> v)\<rparr>\<rparr>"

text \<open>Reading an attribute of a module: there is nothing to inherit from.\<close>

definition module_getattr :: "string \<Rightarrow> string \<Rightarrow> string \<Rightarrow> world \<Rightarrow> exn + pyval" where
  "module_getattr name owner a w =
     (case attrs (aider w) (owner, a) of
        None \<Rightarrow>
          Inl (Error AttributeError
                 (''module '' @ [CHR 0x27] @ name @ [CHR 0x27] @ '' has no attribute ''
                  @ [CHR 0x27] @ a @ [CHR 0x27]))
      | Some v \<Rightarrow> Inr v)"

text \<open>
  \<open>x + y\<close> is defined when both are strings (or both lists), and \<open>x.extend(ys)\<close> when
  \<open>x\<close> is a list; otherwise they raise.
\<close>

fun type_name :: "pyval \<Rightarrow> string" where
  "type_name (Str s) = ''str''"
| "type_name (Messages ms) = ''list''"
| "type_name (Object tn) = tn"

fun py_add :: "pyval \<Rightarrow> pyval \<Rightarrow> exn + pyval" where
  "py_add (Str a) (Str b) = Inr (Str (a @ b))"
| "py_add (Messages a) (Messages b) = Inr (Messages (a @ b))"
| "py_add (Str a) b =
     Inl (Error TypeError
            (''can only concatenate str (not '' @ [CHR 0x22] @ type_name b @ [CHR 0x22]
             @ '') to str''))"
| "py_add (Messages a) b =
     Inl (Error TypeError
            (''can only concatenate list (not '' @ [CHR 0x22] @ type_name b @ [CHR 0x22]
             @ '') to list''))"
| "py_add (Object tn) b =
     Inl (Error TypeError
            (''unsupported operand type(s) for +: '' @ [CHR 0x27] @ tn @ [CHR 0x27]
             @ '' and '' @ [CHR 0x27] @ type_name b @ [CHR 0x27]))"

fun list_extend :: "pyval \<Rightarrow> message list \<Rightarrow> exn + pyval" where
  "list_extend (Messages ms) new = Inr (Messages (ms @ new))"
| "list_extend v new =
     Inl (Error AttributeError
            ([CHR 0x27] @ type_name v @ [CHR 0x27] @ '' object has no attribute ''
             @ [CHR 0x27] @ ''extend'' @ [CHR 0x27]))"

text \<open>\<open>try: ... except Exception: pass\<close> around a step.\<close>

definition try_pass :: "(exn + unit) \<times> world \<Rightarrow> (exn + unit) \<times> world" where
  "try_pass r =
     (case r of
        (Inr u, w) \<Rightarrow> (Inr u, w)
      | (Inl e, w) \<Rightarrow> if is_Exception e then (Inr (), w) else (Inl e, w))"

text \<open>Text made of lines, each ended by a newline.\<close>

definition lines_text :: "string list \<Rightarrow> string" where
  "lines_text ls = concat (map (\<lambda>l. l @ ''\<newline>'') ls)"

subsection \<open>\<open>patch_aider_prompts\<close>\<close>

definition runanywhere_prefix :: "string \<Rightarrow> string" where
  "runanywhere_prefix docs =
     lines_text
       [''You are an expert mobile/cross-platform developer specializing in RunAnywhere SDKs for on-device AI.'',
        [],
        ''Focus on helping users build apps with these SDKs:'',
        ''- Swift SDK (iOS/macOS): runanywhere-swift'',
        ''- Kotlin SDK (Android): runanywhere-kotlin'',
        ''- React Native SDK: @runanywhere/core, @runanywhere/llamacpp'',
        ''- Flutter SDK: runanywhere, runanywhere_llamacpp'',
        [],
        ''Key patterns to follow:'',
        ''1. Always initialize RunAnywhere before use'',
        ''2. Register LlamaCPP backend before loading models'',
        ''3. Download models before loading them'',
        ''4. Use async/await patterns appropriately'',
        ''5. Handle errors gracefully'',
        []]
     @ docs
     @ lines_text [[], [], ''---'', []]"

text \<open>
  The two lines \<open>original = C.main_system\<close> and
  \<open>C.main_system = runanywhere_prefix + original\<close>, which the source repeats for each of
  the four edit-instruction classes.
\<close>

definition prepend_main_system :: "string \<Rightarrow> string \<Rightarrow> world \<Rightarrow> (exn + unit) \<times> world" where
  "prepend_main_system owner prefix w =
     (case getattr owner ''main_system'' w of
        Inl e \<Rightarrow> (Inl e, w)
      | Inr original \<Rightarrow>
          (case py_add (Str prefix) original of
             Inl e \<Rightarrow> (Inl e, w)
           | Inr v \<Rightarrow> (Inr (), setattr owner ''main_system'' v w)))"

text \<open>
  \<open>extend\<close> changes the list in place: the list is the one held by the class that the
  lookup finds, so the change is seen through that class and through every class that
  inherits the attribute from it.
\<close>

definition defining_class :: "string \<Rightarrow> string \<Rightarrow> world \<Rightarrow> string" where
  "defining_class owner a w = (case class_attr owner a w of None \<Rightarrow> owner | Some (c, v) \<Rightarrow> c)"

definition extend_example_messages :: "world \<Rightarrow> (exn + unit) \<times> world" where
  "extend_example_messages w =
     (if hasattr ''EditBlockPrompts'' ''example_messages'' w
      then (case getattr ''EditBlockPrompts'' ''example_messages'' w of
              Inl e \<Rightarrow> (Inl e, w)
            | Inr ms \<Rightarrow>
                (case list_extend ms (EXAMPLE_MESSAGES w) of
                   Inl e \<Rightarrow> (Inl e, w)
                 | Inr v \<Rightarrow>
                     (Inr (),
                      setattr (defining_class ''EditBlockPrompts'' ''example_messages'' w)
                        ''example_messages'' v w)))
      else (Inr (), w))"

text \<open>The body of the outer \<open>try\<close> block.\<close>

definition patch_aider_prompts_try :: "world \<Rightarrow> (exn + unit) \<times> world" where
  "patch_aider_prompts_try w =
     (case import_all
             [''aider.coders.editblock_prompts'',
              ''aider.coders.wholefile_prompts'',
              ''aider.coders.base_prompts'',
              ''aider.coders.editblock_fenced_prompts.EditBlockFencedPrompts'',
              ''aider.coders.udiff_prompts.UnifiedDiffPrompts''] w of
        Inl e \<Rightarrow> (Inl e, w)
      | Inr u \<Rightarrow>
          let prefix = runanywhere_prefix (sdk_docs w)
          in (case prepend_main_system ''EditBlockPrompts'' prefix w of
                (Inl e, w1) \<Rightarrow> (Inl e, w1)
              | (Inr u, w1) \<Rightarrow>
             (case prepend_main_system ''WholeFilePrompts'' prefix w1 of
                (Inl e, w2) \<Rightarrow> (Inl e, w2)
              | (Inr u, w2) \<Rightarrow>
             (case try_pass (prepend_main_system ''EditBlockFencedPrompts'' prefix w2) of
                (Inl e, w3) \<Rightarrow> (Inl e, w3)
              | (Inr u, w3) \<Rightarrow>
             (case try_pass (prepend_main_system ''UnifiedDiffPrompts'' prefix w3) of
                (Inl e, w4) \<Rightarrow> (Inl e, w4)
              | (Inr u, w4) \<Rightarrow>
             (case try_pass (extend_example_messages w4) of
                (Inl e, w5) \<Rightarrow> (Inl e, w5)
              | (Inr u, w5) \<Rightarrow>
                  (Inr (), print (check_mark @ '' RunAnywhere SDK prompts loaded'') w5)))))))"

definition patch_aider_prompts :: "world \<Rightarrow> (exn + unit) \<times> world" where
  "patch_aider_prompts w =
     (case patch_aider_prompts_try w of
        (Inr u, w1) \<Rightarrow> (Inr (), w1)
      | (Inl e, w1) \<Rightarrow>
          if is_ImportError e
          then (Inr (), print (''Warning: Could not patch aider prompts: '' @ str_exn e) w1)
          else if is_Exception e
          then (Inr (), print (''Warning: Error patching prompts: '' @ str_exn e) w1)
          else (Inl e, w1))"

subsection \<open>\<open>patch_help_system\<close>\<close>

definition help_main_system :: string where
  "help_main_system =
     lines_text
       [''You are an expert on building mobile apps with RunAnywhere SDKs.'',
        ''Answer the user's questions about how to use RunAnywhere SDKs to build apps with on-device AI.'',
        [],
        ''RunAnywhere provides SDKs for:'',
        ''- Swift (iOS/macOS)'',
        ''- Kotlin (Android)'',
        ''- React Native'',
        ''- Flutter'',
        [],
        ''Use the provided RunAnywhere SDK documentation to answer questions.'',
        [],
        ''Include links to relevant RunAnywhere resources:'',
        ''- https://github.com/RunanywhereAI/runanywhere-sdks'',
        ''- https://www.runanywhere.ai'',
        [],
        ''If you don't know the answer, suggest checking the GitHub repository or contacting founders@runanywhere.ai.'',
        [],
        ''Be helpful but concise.'',
        [],
        ''Keep this info about the user's system in mind:'',
        ''{platform}'']"

definition help_repo_content_prefix :: string where
  "help_repo_content_prefix =
     lines_text
       [''Here are summaries of some files in the project.'',
        ''These may help you understand how RunAnywhere SDKs are being used.'']"

definition patch_help_system :: "world \<Rightarrow> (exn + unit) \<times> world" where
  "patch_help_system w =
     (case import_all [''aider.coders.help_prompts.HelpPrompts''] w of
        Inl e \<Rightarrow>
          if is_ImportError e
          then (Inr (), print (''Warning: Could not patch help system: '' @ str_exn e) w)
          else if is_Exception e
          then (Inr (), print (''Warning: Error patching help system: '' @ str_exn e) w)
          else (Inl e, w)
      | Inr u \<Rightarrow>
          (Inr (),
           print (check_mark @ '' RunAnywhere help system loaded'')
             (setattr ''HelpPrompts'' ''repo_content_prefix'' (Str help_repo_content_prefix)
               (setattr ''HelpPrompts'' ''main_system'' (Str help_main_system) w))))"

subsection \<open>\<open>patch_commit_prompts\<close>\<close>

definition commit_suffix :: string where
  "commit_suffix =
     ''\<newline>\<newline>''
     @ lines_text
         [''When the changes involve RunAnywhere SDK code, use appropriate prefixes:'',
          ''- feat(swift): for Swift SDK changes'',
          ''- feat(kotlin): for Kotlin SDK changes  '',
          ''- feat(react-native): for React Native SDK changes'',
          ''- feat(flutter): for Flutter SDK changes'',
          ''- feat(ai): for AI/ML related changes'']"

definition patch_commit_prompts_try :: "world \<Rightarrow> (exn + unit) \<times> world" where
  "patch_commit_prompts_try w =
     (case import_all [''aider.prompts''] w of
        Inl e \<Rightarrow> (Inl e, w)
      | Inr u \<Rightarrow>
          (case module_getattr ''aider.prompts'' ''prompts'' ''commit_system'' w of
             Inl e \<Rightarrow> (Inl e, w)
           | Inr original_commit_system \<Rightarrow>
               (case py_add original_commit_system (Str commit_suffix) of
                  Inl e \<Rightarrow> (Inl e, w)
                | Inr v \<Rightarrow> (Inr (), setattr ''prompts'' ''commit_system'' v w))))"

definition patch_commit_prompts :: "world \<Rightarrow> (exn + unit) \<times> world" where
  "patch_commit_prompts w =
     (case patch_commit_prompts_try w of
        (Inr u, w1) \<Rightarrow> (Inr (), w1)
      | (Inl e, w1) \<Rightarrow>
          if is_ImportError e then (Inr (), w1)
          else if is_Exception e then (Inr (), w1)
          else (Inl e, w1))"

subsection \<open>\<open>apply_all_patches\<close>\<close>

definition apply_all_patches :: "world \<Rightarrow> (exn + unit) \<times> world" where
  "apply_all_patches w =
     (case patch_aider_prompts w of
        (Inl e, w1) \<Rightarrow> (Inl e, w1)
      | (Inr u, w1) \<Rightarrow>
          (case patch_help_system w1 of
             (Inl e, w2) \<Rightarrow> (Inl e, w2)
           | (Inr u, w2) \<Rightarrow> patch_commit_prompts w2))"

section \<open>Entry orchestrator (\<open>__main__.py\<close>)\<close>

text \<open>\<open>" ".join(xs)\<close> and the substring test \<open>p in s\<close>.\<close>

fun join :: "string \<Rightarrow> string list \<Rightarrow> string" where
  "join sep [] = []"
| "join sep [x] = x"
| "join sep (x # y # ys) = x @ sep @ join sep (y # ys)"

fun contains :: "string \<Rightarrow> string \<Rightarrow> bool" where
  "contains [] p = (p = [])"
| "contains (c # cs) p = (startswith (c # cs) p \<or> contains cs p)"

definition print_banner :: "world \<Rightarrow> world" where
  "print_banner w = print (banner w) w"

definition check_help_flags :: "world \<Rightarrow> (exn + unit) \<times> world" where
  "check_help_flags w =
     (if ''--version'' \<in> set (argv w) \<or> (''-v'' \<in> set (argv w) \<and> length (argv w) = 2)
      then (Inl (SystemExit 0), print (''runanywhere-agent '' @ version w) w)
      else if ''--help'' \<in> set (argv w) \<or> ''-h'' \<in> set (argv w)
      then (Inr (), print_banner w)
      else (Inr (), w))"

text \<open>
  \<open>main\<close> up to and including step 1: the help and version flags, the banner, the
  \<open>--logout\<close> command, the skip-auth flag and the access gate.
\<close>

definition main_startup :: "world \<Rightarrow> (exn + unit) \<times> world" where
  "main_startup w0 =
     (case check_help_flags w0 of
        (Inl e, w1) \<Rightarrow> (Inl e, w1)
      | (Inr u, w1) \<Rightarrow>
          let w2 = print_banner w1
          in if ''--logout'' \<in> set (argv w2) then (Inl (SystemExit 0), logout w2)
             else
               let skip_auth =
                     (''--skip-auth'' \<in> set (argv w2)
                      \<or> environ_get w2 ''RUNANYWHERE_SKIP_AUTH'' = Some ''1'');
                   w3 = (if ''--skip-auth'' \<in> set (argv w2)
                         then w2\<lparr>argv := remove1 ''--skip-auth'' (argv w2)\<rparr>
                         else w2)
               in if \<not> skip_auth
                  then (case authenticate w3 of
                          (Inl e, w4) \<Rightarrow> (Inl e, w4)
                        | (Inr email, w4) \<Rightarrow>
                            (Inr (), print (''\<newline>Welcome, '' @ email @ ''!\<newline>'') w4))
                  else (Inr (), print ''[DEV MODE] Skipping authentication\<newline>'' w3))"

text \<open>
  Step 5: the host's entry point is imported and called inside the \<open>try\<close>. The call is
  logged with the arguments it sees. An interrupt ends the session with 0, any other
  \<open>Exception\<close> with 1 (the traceback that \<open>--verbose\<close> adds goes to standard error,
  which is not modelled), and a \<open>SystemExit\<close> of the host passes through.
\<close>

definition run_aider :: "world \<Rightarrow> (exn + int option) \<times> world" where
  "run_aider w =
     (case (case import_all [''aider.main.main''] w of
              Inl e \<Rightarrow> (Inl e, w)
            | Inr u \<Rightarrow>
                (aider_main (aider w) (argv w) (environ w),
                 w\<lparr>host_calls := host_calls w @ [argv w]\<rparr>)) of
        (Inr r, w1) \<Rightarrow> (Inr r, w1)
      | (Inl e, w1) \<Rightarrow>
          if is_KeyboardInterrupt e
          then (Inr (Some 0), print ''\<newline>\<newline>Session ended. Goodbye!'' w1)
          else if is_Exception e
          then (Inr (Some 1), print (''\<newline>Error: '' @ str_exn e) w1)
          else (Inl e, w1))"

definition no_keys_message :: "string list" where
  "no_keys_message =
     [CHR ''\<newline>'' # replicate 60 CHR ''='',
      ''  Error: No API Keys Available'',
      replicate 60 CHR ''='',
      ''\<newline>No API keys are configured. Please set one of:'',
      ''  - ANTHROPIC_API_KEY (for Claude models)'',
      ''  - OPENAI_API_KEY (for GPT models)'',
      ''\<newline>Or contact founders@runanywhere.ai for embedded key access.'']"

text \<open>\<open>main\<close> from step 2 on: keys, patches, default model, host.\<close>

definition main_session :: "world \<Rightarrow> (exn + int option) \<times> world" where
  "main_session w0 =
     (case inject_api_keys w0 of
        (Inl e, w1) \<Rightarrow> (Inl e, w1)
      | (Inr key_status, w1) \<Rightarrow>
          if \<not> check_api_keys w1
          then (Inl (SystemExit 1), prints no_keys_message w1)
          else
            let w2 = (if ''--verbose'' \<in> set (argv w1) \<or> ''-v'' \<in> set (argv w1)
                      then print_key_status w1 else w1)
            in (case apply_all_patches w2 of
                  (Inl e, w3) \<Rightarrow> (Inl e, w3)
                | (Inr u, w3) \<Rightarrow>
                    let w4 =
                          (if ''--model'' \<notin> set (argv w3)
                              \<and> \<not> contains (join '' '' (argv w3)) ''-m''
                           then
                             let default_model = get_default_model w3
                             in print (''Using model: '' @ default_model)
                                  (w3\<lparr>argv := argv w3 @ [''--model'', default_model]\<rparr>)
                           else w3);
                        w5 = prints
                               [CHR ''\<newline>'' # replicate 60 CHR ''-'',
                                ''Starting coding session... (type /help for commands)'',
                                replicate 60 CHR ''-'' @ ''\<newline>'']
                               w4
                    in run_aider w5))"

definition main :: "world \<Rightarrow> (exn + int option) \<times> world" where
  "main w =
     (case main_startup w of
        (Inl e, w1) \<Rightarrow> (Inl e, w1)
      | (Inr u, w1) \<Rightarrow> main_session w1)"

text \<open>\<open>run_with_args\<close>: \<open>sys.argv\<close> is replaced when arguments are given.\<close>

definition run_with_args :: "string list option \<Rightarrow> world \<Rightarrow> (exn + int option) \<times> world" where
  "run_with_args args w =
     (case args of
        None \<Rightarrow> main w
      | Some a \<Rightarrow> main (w\<lparr>argv := ''runanywhere-agent'' # a\<rparr>))"

section \<open>Notions used in the statements\<close>

subsection \<open>Failure categories of the allow-list request\<close>




subsection \<open>Providers\<close>

text \<open>
  The two providers, the environment variable that overrides each, its entry in the
  embedded table, and \<open>resolve\<close>, the name the specification gives to
  \<open>get_anthropic_key\<close> and \<open>get_openai_key\<close>.
\<close>

datatype provider = Anthropic | OpenAI

fun env_var :: "provider \<Rightarrow> string" where
  "env_var Anthropic = ''ANTHROPIC_API_KEY''"
| "env_var OpenAI = ''OPENAI_API_KEY''"

fun embedded_name :: "provider \<Rightarrow> string" where
  "embedded_name Anthropic = ''anthropic''"
| "embedded_name OpenAI = ''openai''"

fun resolve :: "provider \<Rightarrow> world \<Rightarrow> string option" where
  "resolve Anthropic w = get_anthropic_key w"
| "resolve OpenAI w = get_openai_key w"

fun available :: "provider \<Rightarrow> key_status \<Rightarrow> bool" where
  "available Anthropic st = anthropic_available st"
| "available OpenAI st = openai_available st"

fun injected :: "provider \<Rightarrow> key_status \<Rightarrow> bool" where
  "injected Anthropic st = anthropic_injected st"
| "injected OpenAI st = openai_injected st"

text \<open>
  What \<open>inject_api_keys\<close> is to do for a provider: the embedded secret is what the
  provider's entry of the table decodes to; a provider is \<open>wanted\<close> when its variable is
  absent or empty and the embedded secret is a non-empty string, which is when the call
  tries to write the variable; the write is \<open>refused\<close> when that secret has a NUL
  character in it. The providers are handled in the order Anthropic, OpenAI, and a refused
  write ends the call, so a provider is \<open>reached\<close> when no write before it was refused,
  and its variable is \<open>written\<close> when it is reached, wanted and not refused.
\<close>

definition embedded_secret :: "provider \<Rightarrow> world \<Rightarrow> string option" where
  "embedded_secret p w = decode_key w (embedded_get w (embedded_name p))"

definition wanted :: "provider \<Rightarrow> world \<Rightarrow> bool" where
  "wanted p w \<longleftrightarrow> \<not> truthy (environ w (env_var p)) \<and> truthy (embedded_secret p w)"

definition refused :: "provider \<Rightarrow> world \<Rightarrow> bool" where
  "refused p w \<longleftrightarrow> wanted p w \<and> CHR 0x00 \<in> set (the (embedded_secret p w))"

fun reached :: "provider \<Rightarrow> world \<Rightarrow> bool" where
  "reached Anthropic w = True"
| "reached OpenAI w = (\<not> refused Anthropic w)"

definition written :: "provider \<Rightarrow> world \<Rightarrow> bool" where
  "written p w \<longleftrightarrow> reached p w \<and> wanted p w \<and> \<not> refused p w"

subsection \<open>Messages\<close>

definition logout_message :: string where
  "logout_message = ''Logged out successfully. You will need to re-authenticate next time.''"


subsection \<open>The cache file\<close>


subsection \<open>Prompt slots\<close>

text \<open>
  The five prompt slots that the wrapper patches. Each is the \<open>main_system\<close> template
  of one host class, reached through one import; the template of a slot is what reading
  that attribute of the class gives, whether the class defines it or inherits it. An
  edit-instruction slot is present when its import succeeds and the template is a string;
  it is patched when the template has become the prefix followed by the old text. The
  help-topic slot is present when its class can be imported; it is patched when the
  template is the help text of the wrapper.
\<close>

datatype slot = Primary | WholeFile | Fenced | UnifiedDiff | HelpTopic

definition slots :: "slot list" where
  "slots = [Primary, WholeFile, Fenced, UnifiedDiff, HelpTopic]"

fun slot_owner :: "slot \<Rightarrow> string" where
  "slot_owner Primary = ''EditBlockPrompts''"
| "slot_owner WholeFile = ''WholeFilePrompts''"
| "slot_owner Fenced = ''EditBlockFencedPrompts''"
| "slot_owner UnifiedDiff = ''UnifiedDiffPrompts''"
| "slot_owner HelpTopic = ''HelpPrompts''"

fun slot_import :: "slot \<Rightarrow> string" where
  "slot_import Primary = ''aider.coders.editblock_prompts''"
| "slot_import WholeFile = ''aider.coders.wholefile_prompts''"
| "slot_import Fenced = ''aider.coders.editblock_fenced_prompts.EditBlockFencedPrompts''"
| "slot_import UnifiedDiff = ''aider.coders.udiff_prompts.UnifiedDiffPrompts''"
| "slot_import HelpTopic = ''aider.coders.help_prompts.HelpPrompts''"

definition template :: "slot \<Rightarrow> world \<Rightarrow> pyval option" where
  "template s w = map_option snd (class_attr (slot_owner s) ''main_system'' w)"

definition present :: "slot \<Rightarrow> world \<Rightarrow> bool" where
  "present s w \<longleftrightarrow>
     import_error (aider w) (slot_import s) = None \<and>
     (s = HelpTopic \<or> (case template s w of Some (Str t) \<Rightarrow> True | _ \<Rightarrow> False))"

definition patched :: "slot \<Rightarrow> world \<Rightarrow> world \<Rightarrow> bool" where
  "patched s w w' \<longleftrightarrow>
     (if s = HelpTopic then template s w' = Some (Str help_main_system)
      else (case template s w of
              Some (Str t) \<Rightarrow> template s w' = Some (Str (runanywhere_prefix (sdk_docs w) @ t))
            | _ \<Rightarrow> False))"

text \<open>All the imports of \<open>patch_aider_prompts\<close> succeed.\<close>

definition edit_imports_ok :: "world \<Rightarrow> bool" where
  "edit_imports_ok w \<longleftrightarrow>
     import_error (aider w) ''aider.coders.editblock_prompts'' = None \<and>
     import_error (aider w) ''aider.coders.wholefile_prompts'' = None \<and>
     import_error (aider w) ''aider.coders.base_prompts'' = None \<and>
     import_error (aider w)
       ''aider.coders.editblock_fenced_prompts.EditBlockFencedPrompts'' = None \<and>
     import_error (aider w) ''aider.coders.udiff_prompts.UnifiedDiffPrompts'' = None"

text \<open>
  \<open>inherits_from s s' w\<close>: the class of slot \<open>s'\<close> is among the ancestors of the class of
  another slot \<open>s\<close>, and neither the class of \<open>s\<close> nor any ancestor before that of \<open>s'\<close>
  defines a template, so that the template of \<open>s\<close> is the one that the class of \<open>s'\<close>
  gives, as soon as that class defines one.

  \<open>upstream_layout w\<close>: no slot inherits its template from another slot in this way,
  except that the fenced slot may inherit from the primary edit-block slot, as it does in
  the host as distributed, where \<open>EditBlockFencedPrompts\<close> is a subclass of
  \<open>EditBlockPrompts\<close> without a \<open>main_system\<close> of its own.
\<close>

definition inherits_from :: "slot \<Rightarrow> slot \<Rightarrow> world \<Rightarrow> bool" where
  "inherits_from s s' w \<longleftrightarrow>
     s \<noteq> s' \<and> slot_owner s' \<in> set (ancestors (aider w) (slot_owner s)) \<and>
     (\<forall>c \<in> set (slot_owner s
                  # takeWhile (\<lambda>c. c \<noteq> slot_owner s') (ancestors (aider w) (slot_owner s))).
        attrs (aider w) (c, ''main_system'') = None)"

definition upstream_layout :: "world \<Rightarrow> bool" where
  "upstream_layout w \<longleftrightarrow>
     (\<forall>s \<in> set slots. \<forall>s' \<in> set slots.
        inherits_from s s' w \<longrightarrow> s = Fenced \<and> s' = Primary)"

text \<open>
  A slot is patched twice when its template has become the prefix, twice, followed by the
  old text of the primary template.
\<close>

definition patched_twice :: "slot \<Rightarrow> world \<Rightarrow> world \<Rightarrow> bool" where
  "patched_twice s w w' \<longleftrightarrow>
     (case template Primary w of
        Some (Str t) \<Rightarrow>
          template s w'
            = Some (Str (runanywhere_prefix (sdk_docs w) @ runanywhere_prefix (sdk_docs w) @ t))
      | _ \<Rightarrow> False)"

text \<open>The lines that the patching prints.\<close>

definition loaded_line :: string where
  "loaded_line = check_mark @ '' RunAnywhere SDK prompts loaded''"

definition help_line :: "world \<Rightarrow> string" where
  "help_line w =
     (case import_error (aider w) (slot_import HelpTopic) of
        None \<Rightarrow> check_mark @ '' RunAnywhere help system loaded''
      | Some m \<Rightarrow> ''Warning: Could not patch help system: '' @ m)"

subsection \<open>Steps that leave parts of the world alone\<close>

text \<open>
  \<open>io_step w w'\<close>: from \<open>w\<close> to \<open>w'\<close> nothing changed but the terminal (input was
  consumed, output was appended) and the log of requests.
\<close>

definition io_step :: "world \<Rightarrow> world \<Rightarrow> bool" where
  "io_step w w' \<longleftrightarrow>
     environ w' = environ w \<and> argv w' = argv w \<and> cache_file w' = cache_file w \<and>
     fs_fault w' = fs_fault w \<and> linesep w' = linesep w \<and> net w' = net w \<and>
     aider w' = aider w \<and>
     host_calls w' = host_calls w \<and> embedded_keys w' = embedded_keys w \<and>
     b64decode_utf8 w' = b64decode_utf8 w \<and> version w' = version w \<and>
     banner w' = banner w \<and> sdk_docs w' = sdk_docs w \<and>
     EXAMPLE_MESSAGES w' = EXAMPLE_MESSAGES w \<and>
     (\<exists>out. stdout w' = stdout w @ out)"

text \<open>
  \<open>config_step w w'\<close>: from \<open>w\<close> to \<open>w'\<close> the environment, the embedded keys, the
  decoder and the host are the same, and the host's entry point was not called.
\<close>

definition config_step :: "world \<Rightarrow> world \<Rightarrow> bool" where
  "config_step w w' \<longleftrightarrow>
     environ w' = environ w \<and> embedded_keys w' = embedded_keys w \<and>
     b64decode_utf8 w' = b64decode_utf8 w \<and> aider w' = aider w \<and>
     host_calls w' = host_calls w"

text \<open>
  \<open>edit_step w w'\<close>: from \<open>w\<close> to \<open>w'\<close> the imports, the documentation text and every
  attribute of the help class are the same.
\<close>

definition edit_step :: "world \<Rightarrow> world \<Rightarrow> bool" where
  "edit_step w w' \<longleftrightarrow>
     import_error (aider w') = import_error (aider w) \<and> sdk_docs w' = sdk_docs w \<and>
     (\<forall>a. attrs (aider w') (''HelpPrompts'', a) = attrs (aider w) (''HelpPrompts'', a))"

subsection \<open>Concrete worlds\<close>

text \<open>
  A machine with an empty environment, no cache file, a working file system, an
  unreachable allow-list service, the placeholder keys the source ships with, and a host
  that has none of the prompt slots.
\<close>

definition shipped_keys :: "string \<Rightarrow> string option" where
  "shipped_keys =
     [''anthropic'' \<mapsto> ''REPLACE_WITH_BASE64_ENCODED_ANTHROPIC_KEY'',
      ''openai'' \<mapsto> ''REPLACE_WITH_BASE64_ENCODED_OPENAI_KEY'']"

definition bare_host :: host where
  "bare_host =
     \<lparr>import_error = (\<lambda>m. None), attrs = (\<lambda>k. None), ancestors = (\<lambda>c. []),
      aider_main = (\<lambda>args env. Inr None)\<rparr>"

definition bare_world :: world where
  "bare_world =
     \<lparr>environ = Map.empty, argv = [''runanywhere-agent''], stdin = [], stdout = [],
      cache_file = None, fs_fault = (\<lambda>op. None), linesep = ''\<newline>'',
      net = (\<lambda>rq. Raises (Error ConnectionError ''unreachable'')), sent = [],
      aider = bare_host, host_calls = [],
      embedded_keys = shipped_keys, b64decode_utf8 = (\<lambda>s. None),
      version = ''1.0.0'', banner = ''RunAnywhere Agent'', sdk_docs = ''docs'',
      EXAMPLE_MESSAGES = []\<rparr>"

text \<open>The same machine with the development-mode flag set.\<close>

definition dev_world :: world where
  "dev_world = bare_world\<lparr>environ := [''RUNANYWHERE_DEV_MODE'' \<mapsto> ''1'']\<rparr>"


text \<open>The same machine with the Anthropic variable set, but to the empty string.\<close>

definition empty_var_world :: world where
  "empty_var_world = bare_world\<lparr>environ := [''ANTHROPIC_API_KEY'' \<mapsto> []]\<rparr>"

text \<open>
  A distribution whose Anthropic placeholder was replaced by the encoding of \<open>sk-ant\<close>,
  run with the Anthropic variable set to the empty string.
\<close>

definition configured_world :: world where
  "configured_world =
     bare_world
       \<lparr>environ := [''ANTHROPIC_API_KEY'' \<mapsto> []],
        embedded_keys := shipped_keys(''anthropic'' \<mapsto> ''c2stYW50''),
        b64decode_utf8 := (\<lambda>s. if s = ''c2stYW50'' then Some ''sk-ant'' else None)\<rparr>"

text \<open>The bare machine with both variables set by the user.\<close>

definition user_keys_world :: world where
  "user_keys_world =
     bare_world\<lparr>environ := [''ANTHROPIC_API_KEY'' \<mapsto> ''sk-ant-user'',
                             ''OPENAI_API_KEY'' \<mapsto> ''sk-user'']\<rparr>"

text \<open>The bare machine with a cached identity.\<close>

definition cached_world :: world where
  "cached_world = bare_world\<lparr>cache_file := Some (Text ''user@example.com'')\<rparr>"


text \<open>The bare machine started with \<open>--skip-auth\<close>.\<close>

definition skip_auth_world :: world where
  "skip_auth_world = bare_world\<lparr>argv := [''runanywhere-agent'', ''--skip-auth'']\<rparr>"

text \<open>
  A host on which every import succeeds and every slot has a template, and the same host
  without the template of the primary edit-block slot, and without that of the unified
  diff slot.
\<close>

definition full_host :: host where
  "full_host =
     \<lparr>import_error = (\<lambda>m. None),
      attrs = [(''EditBlockPrompts'', ''main_system'') \<mapsto> Str ''edit block'',
               (''WholeFilePrompts'', ''main_system'') \<mapsto> Str ''whole file'',
               (''EditBlockFencedPrompts'', ''main_system'') \<mapsto> Str ''fenced'',
               (''UnifiedDiffPrompts'', ''main_system'') \<mapsto> Str ''udiff'',
               (''HelpPrompts'', ''main_system'') \<mapsto> Str ''help''],
      ancestors = (\<lambda>c. []),
      aider_main = (\<lambda>args env. Inr None)\<rparr>"

definition no_primary_world :: world where
  "no_primary_world =
     bare_world
       \<lparr>aider := full_host
          \<lparr>attrs := (attrs full_host)((''EditBlockPrompts'', ''main_system'') := None)\<rparr>\<rparr>"

definition no_udiff_world :: world where
  "no_udiff_world =
     bare_world
       \<lparr>aider := full_host
          \<lparr>attrs := (attrs full_host)((''UnifiedDiffPrompts'', ''main_system'') := None)\<rparr>\<rparr>"

text \<open>
  The machine with a cached identity on which the cache file cannot be removed.
\<close>

definition locked_cache_world :: world where
  "locked_cache_world =
     cached_world\<lparr>fs_fault := (\<lambda>op. if op = Unlink then Some ''Permission denied'' else None)\<rparr>"



text \<open>
  A distribution whose Anthropic placeholder was replaced by the encoding of a key that
  ends with a NUL character, run with no variable set.
\<close>

definition nul_key_world :: world where
  "nul_key_world =
     bare_world
       \<lparr>embedded_keys := shipped_keys(''anthropic'' \<mapsto> ''c2sA''),
        b64decode_utf8 := (\<lambda>s. if s = ''c2sA'' then Some (''sk'' @ [CHR 0x00]) else None)\<rparr>"

section \<open>Basic facts\<close>

lemma prints_eq: "prints ls w = w\<lparr>stdout := stdout w @ ls\<rparr>"
  by (induction ls arbitrary: w) (simp_all add: prints_def print_def)

lemma strip_Nil [simp]: "strip [] = []"
  by (simp add: strip_def)

lemma blank_iff [simp]: "(email = [] \<or> strip email = []) = (strip email = [])"
  by auto

section \<open>The access gate\<close>

subsection \<open>\<open>verify_email\<close>\<close>

lemma requests_get_eq:
  "requests_get rq w =
     (case net w rq of Raises e \<Rightarrow> Inl e | Responds r \<Rightarrow> Inr r, w\<lparr>sent := sent w @ [rq]\<rparr>)"
  by (simp add: requests_get_def split: http_outcome.splits)


lemma verify_email_unfold:
  "verify_email email w =
     (if strip email = [] then (Inr False, w)
      else if environ w ''RUNANYWHERE_DEV_MODE'' = Some ''1''
      then (Inr True, w\<lparr>stdout := stdout w @ [''[DEV MODE] Skipping email verification'']\<rparr>)
      else
        (case verify_email_try (lower (strip email)) w of
           (Inr b, w1) \<Rightarrow> (Inr b, w1)
         | (Inl e, w1) \<Rightarrow>
             if is_Timeout e
             then (Inr False,
                   w1\<lparr>stdout := stdout w1
                      @ [''Warning: Authentication server timeout. Please try again.'']\<rparr>)
             else if is_ConnectionError e
             then (Inr False,
                   w1\<lparr>stdout := stdout w1
                      @ [''Warning: Could not connect to authentication server.'',
                         ''Please check your internet connection.'']\<rparr>)
             else if is_RequestException e
             then (Inr False,
                   w1\<lparr>stdout := stdout w1 @ [''Warning: Authentication error: '' @ str_exn e]\<rparr>)
             else (Inl e, w1)))"
  unfolding verify_email_def Let_def environ_get_def print_def prints_eq blank_iff ..








text \<open>
  C10: for every email that is empty or all whitespace, \<open>verify_email\<close> returns
  \<open>False\<close> and leaves the world as it was: no request is sent and nothing is printed,
  whatever the environment holds, the development-mode flag included.
\<close>

theorem verify_email_blank:
  "strip email = [] \<Longrightarrow> verify_email email w = (Inr False, w)"
  by (simp add: verify_email_def)

theorem verify_email_blank_witness:
  "strip '' '' = [] \<and> environ dev_world ''RUNANYWHERE_DEV_MODE'' = Some ''1'' \<and>
   verify_email '' '' dev_world = (Inr False, dev_world)"
proof -
  have h: "strip '' '' = []" by (simp add: strip_def isspace_def)
  show ?thesis using h verify_email_blank [OF h] by (simp add: dev_world_def)
qed


text \<open>
  C5, amended: for every email that is not blank, with \<open>RUNANYWHERE_DEV_MODE=1\<close>
  \<open>verify_email\<close> returns \<open>True\<close>, sends no request, and prints the line that says
  verification was skipped.
\<close>

theorem verify_email_dev_mode:
  "strip email \<noteq> [] \<Longrightarrow> environ w ''RUNANYWHERE_DEV_MODE'' = Some ''1'' \<Longrightarrow>
   verify_email email w =
     (Inr True, w\<lparr>stdout := stdout w @ [''[DEV MODE] Skipping email verification'']\<rparr>) \<and>
   sent (snd (verify_email email w)) = sent w"
  by (simp add: verify_email_unfold)

theorem verify_email_dev_mode_witness:
  "strip '' User@Example.COM '' \<noteq> [] \<and>
   environ dev_world ''RUNANYWHERE_DEV_MODE'' = Some ''1'' \<and>
   fst (verify_email '' User@Example.COM '' dev_world) = Inr True \<and>
   stdout (snd (verify_email '' User@Example.COM '' dev_world))
     = [''[DEV MODE] Skipping email verification''] \<and>
   sent (snd (verify_email '' User@Example.COM '' dev_world)) = []"
proof -
  have h1: "strip '' User@Example.COM '' \<noteq> []" by (simp add: strip_def isspace_def)
  have h2: "environ dev_world ''RUNANYWHERE_DEV_MODE'' = Some ''1''"
    by (simp add: dev_world_def)
  show ?thesis
    using h1 h2 verify_email_dev_mode [OF h1 h2]
    by (simp add: dev_world_def bare_world_def)
qed

text \<open>
  C5 as stated fails on a blank email: with the flag set, \<open>verify_email\<close> still returns
  \<open>False\<close> for the empty string and for a string of spaces.
\<close>

theorem verify_email_dev_mode_counterexample:
  "environ dev_world ''RUNANYWHERE_DEV_MODE'' = Some ''1'' \<and>
   fst (verify_email [] dev_world) = Inr False \<and>
   fst (verify_email ''   '' dev_world) = Inr False"
  by (simp add: verify_email_def dev_world_def strip_def isspace_def)

subsection \<open>\<open>strip\<close> is idempotent\<close>

lemma dropWhile_self: "xs = [] \<or> \<not> P (hd xs) \<Longrightarrow> dropWhile P xs = xs"
  by (cases xs) auto

lemma hd_dropWhile_free: "dropWhile P xs = [] \<or> \<not> P (hd (dropWhile P xs))"
  using hd_dropWhile [of P xs] by blast

lemma rstrip_keeps_head:
  assumes "xs = [] \<or> \<not> P (hd xs)"
  shows "rev (dropWhile P (rev xs)) = [] \<or> \<not> P (hd (rev (dropWhile P (rev xs))))"
proof (cases "rev (dropWhile P (rev xs)) = []")
  case True
  then show ?thesis by simp
next
  case False
  have "rev xs = takeWhile P (rev xs) @ dropWhile P (rev xs)" by simp
  then have "xs = rev (dropWhile P (rev xs)) @ rev (takeWhile P (rev xs))"
    by (metis rev_append rev_rev_ident)
  with False have "hd xs = hd (rev (dropWhile P (rev xs)))"
    by (metis hd_append2)
  with assms False show ?thesis by auto
qed

lemma strip_strip [simp]: "strip (strip s) = strip s"
proof -
  let ?u = "rev (dropWhile isspace (rev (dropWhile isspace s)))"
  have "?u = [] \<or> \<not> isspace (hd ?u)"
    by (rule rstrip_keeps_head) (rule hd_dropWhile_free)
  then have "dropWhile isspace ?u = ?u" by (rule dropWhile_self)
  moreover have "dropWhile isspace (rev ?u) = rev ?u" by simp
  ultimately show ?thesis by (simp add: strip_def)
qed

subsection \<open>Steps that only read and write the terminal\<close>

lemma io_step_refl [simp]: "io_step w w"
  by (simp add: io_step_def)

lemma io_step_trans: "io_step w w1 \<Longrightarrow> io_step w1 w2 \<Longrightarrow> io_step w w2"
  by (auto simp: io_step_def)

lemma io_step_print [simp]: "io_step w (print s w)"
  by (simp add: io_step_def print_def)

lemma io_step_prints [simp]: "io_step w (prints ls w)"
  by (simp add: io_step_def prints_eq)

lemma io_step_input: "io_step w (snd (input p w))"
  by (cases "stdin w") (simp_all add: io_step_def input_def print_def)


lemma io_step_email_loop: "io_step w (snd (email_loop w))"
proof (induction w rule: email_loop.induct)
  case (1 w)
  obtain r w1 where inp: "input ''Email: '' w = (r, w1)" by (cases "input ''Email: '' w")
  with io_step_input [of w "''Email: ''"] have step: "io_step w w1" by simp
  show ?case
  proof (cases r)
    case (Inl e)
    with inp step show ?thesis by (subst email_loop.simps) simp
  next
    case (Inr line)
    consider (empty) "strip line = []"
      | (invalid) "strip line \<noteq> []"
          "CHR ''@'' \<notin> set (strip line) \<or> CHR ''.'' \<notin> set (strip line)"
      | (ok) "strip line \<noteq> []"
          "\<not> (CHR ''@'' \<notin> set (strip line) \<or> CHR ''.'' \<notin> set (strip line))"
      by blast
    then show ?thesis
    proof cases
      case empty
      from "1.IH"(1) [OF inp [symmetric] Inr refl empty] step
      have "io_step w (snd (email_loop (print ''Email cannot be empty. Please try again.'' w1)))"
        by (blast intro: io_step_trans io_step_print)
      with inp Inr empty show ?thesis by (subst email_loop.simps) simp
    next
      case invalid
      from "1.IH"(2) [OF inp [symmetric] Inr refl invalid] step
      have "io_step w (snd (email_loop (print ''Please enter a valid email address.'' w1)))"
        by (blast intro: io_step_trans io_step_print)
      with inp Inr invalid show ?thesis by (subst email_loop.simps) simp
    next
      case ok
      with inp Inr step show ?thesis by (subst email_loop.simps) simp
    qed
  qed
qed


subsection \<open>\<open>prompt_for_email\<close> and \<open>verify_email\<close> as steps\<close>

lemma io_step_prompt_new_email: "io_step w (snd (prompt_new_email w))"
  by (auto simp: prompt_new_email_def Let_def
      intro: io_step_trans [OF io_step_prints io_step_email_loop])


lemma io_step_prompt_for_email: "io_step w (snd (prompt_for_email w))"
proof (cases "get_cached_email w")
  case (Inl e)
  then show ?thesis by (simp add: prompt_for_email_def)
next
  case (Inr cached)
  let ?w0 = "print (''Using cached email: '' @ the cached) w"
  let ?p = "''Press Enter to continue, or type 'new' for a different email: ''"
  obtain r w1 where inp: "input ?p ?w0 = (r, w1)" by (cases "input ?p ?w0")
  with io_step_input [of ?w0 ?p] have "io_step ?w0 w1" by simp
  then have step: "io_step w w1" by (blast intro: io_step_trans io_step_print)
  then have "io_step w (snd (prompt_new_email w1))"
    by (blast intro: io_step_trans io_step_prompt_new_email)
  with Inr inp step show ?thesis
    by (auto simp: prompt_for_email_def io_step_prompt_new_email split: sum.splits)
qed



lemma io_step_verify_email_try: "io_step w (snd (verify_email_try email w))"
  by (simp add: verify_email_try_def requests_get_eq io_step_def print_def
      split: http_outcome.splits sum.splits)

lemma io_step_verify_email: "io_step w (snd (verify_email email w))"
proof -
  obtain r w1 where t: "verify_email_try (lower (strip email)) w = (r, w1)"
    by (cases "verify_email_try (lower (strip email)) w")
  with io_step_verify_email_try [of w "lower (strip email)"] have "io_step w w1" by simp
  with t show ?thesis
    by (auto simp: verify_email_unfold io_step_def split: sum.splits)
qed


subsection \<open>The cache file and \<open>logout\<close>\<close>

lemma clear_auth_cache_eq:
  "clear_auth_cache w =
     (if fs_fault w Exists = None \<and> fs_fault w Unlink = None then w\<lparr>cache_file := None\<rparr>
      else w)"
  by (cases "cache_file w") (auto simp: clear_auth_cache_def split: option.splits)

lemma clear_auth_cache_absent:
  "cache_file w = None \<Longrightarrow> clear_auth_cache w = w"
  by (simp add: clear_auth_cache_def split: option.splits)

lemma clear_auth_cache_fs_fault [simp]: "fs_fault (clear_auth_cache w) = fs_fault w"
  by (simp add: clear_auth_cache_eq)

lemma clear_auth_cache_twice: "clear_auth_cache (clear_auth_cache w) = clear_auth_cache w"
  by (simp add: clear_auth_cache_eq)

lemma clear_auth_cache_print:
  "clear_auth_cache (print s w) = print s (clear_auth_cache w)"
  by (simp add: clear_auth_cache_eq print_def)

lemma logout_fs_fault [simp]: "fs_fault (logout w) = fs_fault w"
  by (simp add: logout_def print_def)

lemma logout_funpow_fs_fault [simp]: "fs_fault ((logout ^^ n) w) = fs_fault w"
  by (induction n) simp_all

text \<open>
  C9, amended: \<open>logout\<close> has no exceptional result and always prints its message of
  success. What it does to the cache file depends on the file system: when neither the
  existence test nor the unlink fails, the file is absent afterwards, whatever it was
  before, and it is absent after any number of calls (at least one); when one of them
  fails with an \<open>OSError\<close>, the error is swallowed and the file is left as it was.
  \<open>logout\<close> is idempotent: called when the file is already absent it only prints its
  message, and a second \<open>logout\<close>, on a file system that behaves as it did for the first,
  changes nothing but the output.
\<close>

theorem logout_idempotent:
  "logout w =
     print logout_message
       (if fs_fault w Exists = None \<and> fs_fault w Unlink = None then w\<lparr>cache_file := None\<rparr>
        else w) \<and>
   (fs_fault w Exists = None \<and> fs_fault w Unlink = None \<longrightarrow>
      cache_file (logout w) = None \<and> (\<forall>n. cache_file ((logout ^^ Suc n) w) = None)) \<and>
   (fs_fault w Exists \<noteq> None \<or> fs_fault w Unlink \<noteq> None \<longrightarrow>
      cache_file (logout w) = cache_file w) \<and>
   (cache_file w = None \<longrightarrow> logout w = print logout_message w) \<and>
   logout (logout w) = print logout_message (logout w)"
proof -
  have eq: "logout w =
     print logout_message
       (if fs_fault w Exists = None \<and> fs_fault w Unlink = None then w\<lparr>cache_file := None\<rparr>
        else w)"
    by (simp add: logout_def logout_message_def clear_auth_cache_eq)
  have once: "cache_file (logout v) = None"
    if "fs_fault v Exists = None \<and> fs_fault v Unlink = None" for v
    using that by (simp add: logout_def print_def clear_auth_cache_eq)
  have many: "cache_file ((logout ^^ Suc n) w) = None"
    if "fs_fault w Exists = None \<and> fs_fault w Unlink = None" for n
    using that by (simp add: once)
  have kept: "cache_file (logout w) = cache_file w"
    if "fs_fault w Exists \<noteq> None \<or> fs_fault w Unlink \<noteq> None"
    using that by (auto simp: logout_def print_def clear_auth_cache_eq)
  have absent: "logout w = print logout_message w" if "cache_file w = None"
    using that by (simp add: logout_def logout_message_def clear_auth_cache_absent)
  have twice: "logout (logout w) = print logout_message (logout w)"
    by (simp add: logout_def logout_message_def clear_auth_cache_print clear_auth_cache_twice)
  from eq once [of w] many kept absent twice show ?thesis by blast
qed

theorem logout_idempotent_witness:
  "fs_fault cached_world Exists = None \<and> fs_fault cached_world Unlink = None \<and>
   cache_file cached_world = Some (Text ''user@example.com'') \<and>
   cache_file (logout cached_world) = None \<and>
   cache_file (logout (logout cached_world)) = None \<and>
   logout (logout cached_world) = print logout_message (logout cached_world) \<and>
   cache_file bare_world = None \<and> logout bare_world = print logout_message bare_world \<and>
   fs_fault locked_cache_world Unlink \<noteq> None \<and>
   cache_file (logout locked_cache_world) = cache_file locked_cache_world"
proof -
  have h1: "fs_fault cached_world Exists = None \<and> fs_fault cached_world Unlink = None"
    by (simp add: cached_world_def bare_world_def)
  have h2: "cache_file bare_world = None"
    by (simp add: bare_world_def)
  have h3: "fs_fault locked_cache_world Unlink \<noteq> None"
    by (simp add: locked_cache_world_def)
  have "cache_file ((logout ^^ Suc (Suc 0)) cached_world) = None"
    using logout_idempotent [of cached_world] h1 by blast
  then have two: "cache_file (logout (logout cached_world)) = None" by simp
  have c: "cache_file cached_world = Some (Text ''user@example.com'')"
    by (simp add: cached_world_def)
  from logout_idempotent [of cached_world] h1
  have a: "cache_file (logout cached_world) = None"
    and b: "logout (logout cached_world) = print logout_message (logout cached_world)"
    by blast+
  from logout_idempotent [of bare_world] h2
  have d: "logout bare_world = print logout_message bare_world" by blast
  from logout_idempotent [of locked_cache_world] h3
  have e: "cache_file (logout locked_cache_world) = cache_file locked_cache_world" by blast
  from h1 c a two b h2 d h3 e show ?thesis by blast
qed

text \<open>
  C9 as stated fails when the file cannot be removed: \<open>logout\<close> reports success, and
  the cache file is still there, after one call and after two.
\<close>

theorem logout_idempotent_counterexample:
  "cache_file locked_cache_world = Some (Text ''user@example.com'') \<and>
   stdout (logout locked_cache_world) = [logout_message] \<and>
   cache_file (logout locked_cache_world) = Some (Text ''user@example.com'') \<and>
   cache_file (logout (logout locked_cache_world)) = Some (Text ''user@example.com'')"
  by (simp add: logout_def logout_message_def clear_auth_cache_eq print_def
      locked_cache_world_def cached_world_def bare_world_def)

subsection \<open>Line ends in the cache file\<close>

lemma write_newlines_Nil [simp]: "write_newlines sep [] = []"
  by (simp add: write_newlines_def)








subsection \<open>\<open>authenticate\<close>\<close>









section \<open>The credential resolver\<close>

text \<open>
  C6, amended: for each provider, if the override environment variable is set to a
  non-empty value, \<open>resolve\<close> returns that value unchanged, whatever the embedded table
  and the decoder are.
\<close>

theorem resolve_override:
  "environ w (env_var p) = Some v \<Longrightarrow> v \<noteq> [] \<Longrightarrow>
   resolve p (w\<lparr>embedded_keys := ks, b64decode_utf8 := dec\<rparr>) = Some v"
  by (cases p) (simp_all add: get_anthropic_key_def get_openai_key_def environ_get_def)

theorem resolve_override_witness:
  "environ user_keys_world (env_var OpenAI) = Some ''sk-user'' \<and> ''sk-user'' \<noteq> [] \<and>
   resolve OpenAI
     (user_keys_world\<lparr>embedded_keys := [''openai'' \<mapsto> ''c2stYW50''],
        b64decode_utf8 := (\<lambda>s. Some ''sk-ant'')\<rparr>) = Some ''sk-user''"
proof -
  have h1: "environ user_keys_world (env_var OpenAI) = Some ''sk-user''"
    by (simp add: user_keys_world_def)
  have h2: "''sk-user'' \<noteq> []" by simp
  show ?thesis using h1 resolve_override [OF h1 h2] by simp
qed

text \<open>
  C6 as stated fails when the variable is set to the empty string: \<open>resolve\<close> then
  returns \<open>None\<close> with the shipped placeholders, and the embedded key when one is
  configured, not the variable's value.
\<close>

theorem resolve_override_counterexample:
  "environ empty_var_world (env_var Anthropic) = Some [] \<and>
   resolve Anthropic empty_var_world \<noteq> Some [] \<and>
   resolve Anthropic empty_var_world = None \<and>
   environ configured_world (env_var Anthropic) = Some [] \<and>
   resolve Anthropic configured_world = Some ''sk-ant''"
  by (simp add: get_anthropic_key_def environ_get_def decode_key_def embedded_get_def
      startswith_def empty_var_world_def configured_world_def bare_world_def shipped_keys_def)

text \<open>
  C7: for each provider whose override variable is unset and whose embedded string is
  empty, starts with \<open>REPLACE_WITH\<close>, or fails to decode, \<open>resolve\<close> returns \<open>None\<close>.
\<close>

theorem resolve_unconfigured:
  assumes "environ w (env_var p) = None"
    and "embedded_get w (embedded_name p) = []
         \<or> startswith (embedded_get w (embedded_name p)) ''REPLACE_WITH''
         \<or> b64decode_utf8 w (embedded_get w (embedded_name p)) = None"
  shows "resolve p w = None"
  using assms
  by (cases p)
     (auto simp: get_anthropic_key_def get_openai_key_def environ_get_def decode_key_def)

theorem resolve_unconfigured_witness:
  "environ bare_world (env_var Anthropic) = None \<and>
   startswith (embedded_get bare_world (embedded_name Anthropic)) ''REPLACE_WITH'' \<and>
   resolve Anthropic bare_world = None"
proof -
  have h1: "environ bare_world (env_var Anthropic) = None"
    by (simp add: bare_world_def)
  have h2: "startswith (embedded_get bare_world (embedded_name Anthropic)) ''REPLACE_WITH''"
    by (simp add: startswith_def embedded_get_def bare_world_def shipped_keys_def)
  show ?thesis using h1 h2 resolve_unconfigured [OF h1 disjI2, OF disjI1, OF h2] by simp
qed

subsection \<open>\<open>inject_api_keys\<close>\<close>

lemma decode_key_environ [simp]: "decode_key (w\<lparr>environ := e\<rparr>) k = decode_key w k"
  by (simp add: decode_key_def)

lemma embedded_get_environ [simp]: "embedded_get (w\<lparr>environ := e\<rparr>) k = embedded_get w k"
  by (simp add: embedded_get_def)

lemma truthy_Some: "truthy x \<Longrightarrow> Some (the x) = x"
  by (cases x) simp_all

lemma provider_all: "(\<forall>p. P p) = (P Anthropic \<and> P OpenAI)"
  by (metis provider.exhaust)

lemma provider_ex: "(\<exists>p. P p) = (P Anthropic \<or> P OpenAI)"
  by (metis provider.exhaust)

text \<open>\<open>inject_api_keys\<close> in terms of what is wanted and what is refused.\<close>

lemma inject_api_keys_eq:
  "inject_api_keys w =
     (if refused Anthropic w then (Inl (Error ValueError ''embedded null byte''), w)
      else
        let w1 = (if wanted Anthropic w
                  then w\<lparr>environ := (environ w)(''ANTHROPIC_API_KEY'' := embedded_secret Anthropic w)\<rparr>
                  else w)
        in if refused OpenAI w then (Inl (Error ValueError ''embedded null byte''), w1)
           else (Inr \<lparr>anthropic_injected = wanted Anthropic w,
                      openai_injected = wanted OpenAI w,
                      anthropic_available =
                        (truthy (environ w ''ANTHROPIC_API_KEY'') \<or> wanted Anthropic w),
                      openai_available =
                        (truthy (environ w ''OPENAI_API_KEY'') \<or> wanted OpenAI w)\<rparr>,
                 if wanted OpenAI w
                 then w1\<lparr>environ := (environ w1)(''OPENAI_API_KEY'' := embedded_secret OpenAI w)\<rparr>
                 else w1))"
  by (simp add: inject_api_keys_def environ_set_def wanted_def refused_def embedded_secret_def
      environ_get_def Let_def truthy_Some)

lemma inject_api_keys_environ:
  "environ (snd (inject_api_keys w)) k =
     (if k = ''ANTHROPIC_API_KEY'' \<and> written Anthropic w then embedded_secret Anthropic w
      else if k = ''OPENAI_API_KEY'' \<and> written OpenAI w then embedded_secret OpenAI w
      else environ w k)"
  by (simp add: inject_api_keys_eq Let_def written_def refused_def)

lemma inject_api_keys_other_fields:
  "snd (inject_api_keys w) = w\<lparr>environ := environ (snd (inject_api_keys w))\<rparr>"
  by (simp add: inject_api_keys_eq Let_def)

lemma inject_api_keys_fst:
  "fst (inject_api_keys w) =
     (if refused Anthropic w \<or> refused OpenAI w
      then Inl (Error ValueError ''embedded null byte'')
      else Inr \<lparr>anthropic_injected = wanted Anthropic w,
                openai_injected = wanted OpenAI w,
                anthropic_available =
                  (truthy (environ w ''ANTHROPIC_API_KEY'') \<or> wanted Anthropic w),
                openai_available =
                  (truthy (environ w ''OPENAI_API_KEY'') \<or> wanted OpenAI w)\<rparr>)"
  by (simp add: inject_api_keys_eq Let_def)

text \<open>
  C8, amended: for each provider, if the provider's environment variable holds a non-empty
  value before \<open>inject_api_keys\<close> runs, the call leaves that variable unchanged, and the
  status it returns, when it returns one, reports the provider as available and not
  injected. In general the call changes nothing but the two provider variables, and it
  writes a provider's variable exactly when the variable was absent or empty, the embedded
  secret decodes to a non-empty string without a NUL character, and no write before it,
  in the order Anthropic, OpenAI, was refused; the value written is the decoded secret.
  The status reports a provider as injected exactly when its variable was absent or empty
  and its secret decodes to a non-empty string, and as available exactly when it is
  injected or its variable held a non-empty value. The call raises \<open>ValueError\<close>, and
  returns no status, exactly when such a secret has a NUL character in it.
\<close>

theorem inject_keeps_set_variable:
  "(\<forall>p v. environ w (env_var p) = Some v \<and> v \<noteq> [] \<longrightarrow>
      environ (snd (inject_api_keys w)) (env_var p) = Some v \<and>
      (\<forall>st. fst (inject_api_keys w) = Inr st \<longrightarrow> available p st \<and> \<not> injected p st)) \<and>
   (\<forall>p. environ (snd (inject_api_keys w)) (env_var p)
          = (if written p w then embedded_secret p w else environ w (env_var p))) \<and>
   (\<forall>k. (\<forall>p. k \<noteq> env_var p) \<longrightarrow> environ (snd (inject_api_keys w)) k = environ w k) \<and>
   snd (inject_api_keys w) = w\<lparr>environ := environ (snd (inject_api_keys w))\<rparr> \<and>
   (\<forall>st. fst (inject_api_keys w) = Inr st \<longrightarrow>
      (\<forall>p. injected p st = wanted p w \<and>
           available p st = (truthy (environ w (env_var p)) \<or> wanted p w))) \<and>
   ((\<exists>p. refused p w) \<longrightarrow>
      fst (inject_api_keys w) = Inl (Error ValueError ''embedded null byte'')) \<and>
   ((\<forall>p. \<not> refused p w) \<longrightarrow> (\<exists>st. fst (inject_api_keys w) = Inr st))"
proof -
  have var: "environ (snd (inject_api_keys w)) (env_var p)
          = (if written p w then embedded_secret p w else environ w (env_var p))" for p
    by (cases p) (simp_all add: inject_api_keys_environ)
  have frame: "environ (snd (inject_api_keys w)) k = environ w k" if "\<forall>p. k \<noteq> env_var p" for k
    using that by (simp add: inject_api_keys_environ provider_all)
  have status: "injected p st = wanted p w \<and>
      available p st = (truthy (environ w (env_var p)) \<or> wanted p w)"
    if "fst (inject_api_keys w) = Inr st" for st p
    using that by (cases p) (auto simp: inject_api_keys_fst split: if_splits)
  have raises: "fst (inject_api_keys w) = Inl (Error ValueError ''embedded null byte'')"
    if "\<exists>p. refused p w"
    using that by (simp add: inject_api_keys_fst provider_ex)
  have returns: "\<exists>st. fst (inject_api_keys w) = Inr st" if "\<forall>p. \<not> refused p w"
    using that by (simp add: inject_api_keys_fst provider_all)
  have kept: "environ (snd (inject_api_keys w)) (env_var p) = Some v \<and>
      (\<forall>st. fst (inject_api_keys w) = Inr st \<longrightarrow> available p st \<and> \<not> injected p st)"
    if "environ w (env_var p) = Some v \<and> v \<noteq> []" for p v
  proof -
    from that have "\<not> wanted p w" by (simp add: wanted_def)
    with that var [of p] status [of _ p] show ?thesis
      by (auto simp: written_def)
  qed
  from kept var frame inject_api_keys_other_fields [of w] status raises returns
  show ?thesis by blast
qed

theorem inject_keeps_set_variable_witness:
  "environ user_keys_world (env_var Anthropic) = Some ''sk-ant-user'' \<and>
   ''sk-ant-user'' \<noteq> [] \<and> (\<forall>p. \<not> refused p user_keys_world) \<and>
   environ (snd (inject_api_keys user_keys_world)) ''ANTHROPIC_API_KEY'' = Some ''sk-ant-user'' \<and>
   (\<exists>st. fst (inject_api_keys user_keys_world) = Inr st \<and>
      anthropic_available st \<and> \<not> anthropic_injected st) \<and>
   (\<forall>p. ''PATH'' \<noteq> env_var p) \<and>
   environ (snd (inject_api_keys user_keys_world)) ''PATH'' = environ user_keys_world ''PATH'' \<and>
   written Anthropic configured_world \<and>
   environ (snd (inject_api_keys configured_world)) ''ANTHROPIC_API_KEY'' = Some ''sk-ant'' \<and>
   (\<exists>p. refused p nul_key_world) \<and>
   fst (inject_api_keys nul_key_world) = Inl (Error ValueError ''embedded null byte'') \<and>
   environ (snd (inject_api_keys nul_key_world)) ''ANTHROPIC_API_KEY'' = None"
proof -
  have h1: "environ user_keys_world (env_var Anthropic) = Some ''sk-ant-user'' \<and>
      ''sk-ant-user'' \<noteq> []"
    by (simp add: user_keys_world_def)
  have h2: "\<forall>p. \<not> refused p user_keys_world"
    by (simp add: provider_all refused_def wanted_def user_keys_world_def)
  have h3: "\<forall>p. ''PATH'' \<noteq> env_var p"
    by (simp add: provider_all)
  have h4: "written Anthropic configured_world"
    by (simp add: written_def wanted_def refused_def embedded_secret_def decode_key_def
        embedded_get_def startswith_def configured_world_def bare_world_def shipped_keys_def)
  have h5: "embedded_secret Anthropic configured_world = Some ''sk-ant''"
    by (simp add: embedded_secret_def decode_key_def embedded_get_def startswith_def
        configured_world_def bare_world_def shipped_keys_def)
  have h6: "refused Anthropic nul_key_world"
    by (simp add: wanted_def refused_def embedded_secret_def decode_key_def
        embedded_get_def startswith_def nul_key_world_def bare_world_def shipped_keys_def)
  then have h7: "\<exists>p. refused p nul_key_world" ..
  from h6 have h8: "\<not> written Anthropic nul_key_world"
    by (simp add: written_def)
  have h9: "environ nul_key_world (env_var Anthropic) = None"
    by (simp add: nul_key_world_def bare_world_def)
  from inject_keeps_set_variable [of user_keys_world] h1 h2 h3
  have a: "environ (snd (inject_api_keys user_keys_world)) (env_var Anthropic)
             = Some ''sk-ant-user'' \<and>
      (\<exists>st. fst (inject_api_keys user_keys_world) = Inr st \<and>
         available Anthropic st \<and> \<not> injected Anthropic st) \<and>
      environ (snd (inject_api_keys user_keys_world)) ''PATH'' = environ user_keys_world ''PATH''"
    by blast
  from inject_keeps_set_variable [of configured_world]
  have "environ (snd (inject_api_keys configured_world)) (env_var Anthropic)
          = (if written Anthropic configured_world
             then embedded_secret Anthropic configured_world
             else environ configured_world (env_var Anthropic))"
    by blast
  with h4 h5
  have b: "environ (snd (inject_api_keys configured_world)) (env_var Anthropic) = Some ''sk-ant''"
    by simp
  from inject_keeps_set_variable [of nul_key_world] h7
  have "fst (inject_api_keys nul_key_world) = Inl (Error ValueError ''embedded null byte'') \<and>
      environ (snd (inject_api_keys nul_key_world)) (env_var Anthropic)
          = (if written Anthropic nul_key_world
             then embedded_secret Anthropic nul_key_world
             else environ nul_key_world (env_var Anthropic))"
    by blast
  with h8 h9
  have c: "fst (inject_api_keys nul_key_world) = Inl (Error ValueError ''embedded null byte'') \<and>
      environ (snd (inject_api_keys nul_key_world)) (env_var Anthropic) = None"
    by simp
  from h1 h2 h3 h4 h7 a b c show ?thesis by simp
qed

text \<open>
  C8 as stated fails when the variable is set to the empty string: with the shipped
  placeholders the provider is reported as not available, and with a configured embedded
  key the variable is overwritten and reported as injected.
\<close>

theorem inject_keeps_set_variable_counterexample:
  "environ empty_var_world (env_var Anthropic) = Some [] \<and>
   fst (inject_api_keys empty_var_world)
     = Inr \<lparr>anthropic_injected = False, openai_injected = False,
            anthropic_available = False, openai_available = False\<rparr> \<and>
   environ configured_world (env_var Anthropic) = Some [] \<and>
   environ (snd (inject_api_keys configured_world)) (env_var Anthropic) = Some ''sk-ant'' \<and>
   fst (inject_api_keys configured_world)
     = Inr \<lparr>anthropic_injected = True, openai_injected = False,
            anthropic_available = True, openai_available = False\<rparr>"
  by (simp add: inject_api_keys_def environ_set_def environ_get_def decode_key_def
      embedded_get_def Let_def startswith_def empty_var_world_def configured_world_def
      bare_world_def shipped_keys_def)

subsection \<open>\<open>check_api_keys\<close>\<close>

lemma check_api_keys_iff:
  "check_api_keys w = (truthy (get_anthropic_key w) \<or> truthy (get_openai_key w))"
  by (simp add: check_api_keys_def Let_def)

lemma check_api_keys_resolve: "check_api_keys w = (\<exists>p. truthy (resolve p w))"
proof -
  have "(\<exists>p. truthy (resolve p w)) = (truthy (resolve Anthropic w) \<or> truthy (resolve OpenAI w))"
    by (metis provider.exhaust)
  then show ?thesis by (simp add: check_api_keys_iff)
qed

lemma resolve_config_step:
  assumes "config_step w w'"
  shows "resolve p w' = resolve p w"
proof -
  from assms have e: "embedded_get w' k = embedded_get w k" for k
    by (simp add: config_step_def embedded_get_def)
  from assms have d: "decode_key w' k = decode_key w k" for k
    by (simp add: config_step_def decode_key_def)
  from assms have "environ w' = environ w"
    by (simp add: config_step_def)
  with e d show ?thesis
    by (cases p)
       (simp_all add: get_anthropic_key_def get_openai_key_def environ_get_def Let_def
          cong: if_cong)
qed

lemma check_api_keys_config_step: "config_step w w' \<Longrightarrow> check_api_keys w' = check_api_keys w"
  by (simp add: check_api_keys_resolve resolve_config_step)

lemma inject_embedded [simp]:
  "embedded_keys (snd (inject_api_keys w)) = embedded_keys w"
  "b64decode_utf8 (snd (inject_api_keys w)) = b64decode_utf8 w"
  "host_calls (snd (inject_api_keys w)) = host_calls w"
  "stdout (snd (inject_api_keys w)) = stdout w"
  by (subst inject_api_keys_other_fields, simp)+

lemma resolve_eq:
  "resolve p v =
     (if truthy (environ v (env_var p)) then environ v (env_var p) else embedded_secret p v)"
  by (cases p)
     (simp_all add: get_anthropic_key_def get_openai_key_def environ_get_def
        embedded_secret_def)

lemma truthy_resolve_inject:
  "truthy (resolve p (snd (inject_api_keys w))) = truthy (resolve p w)"
proof -
  have "embedded_secret p (snd (inject_api_keys w)) = embedded_secret p w"
    by (simp add: embedded_secret_def decode_key_def embedded_get_def)
  moreover have "environ (snd (inject_api_keys w)) (env_var p)
          = (if written p w then embedded_secret p w else environ w (env_var p))"
    by (cases p) (simp_all add: inject_api_keys_environ)
  ultimately show ?thesis
    by (auto simp: resolve_eq written_def wanted_def)
qed

lemma check_api_keys_inject:
  "check_api_keys (snd (inject_api_keys w)) = check_api_keys w"
  by (simp add: check_api_keys_resolve truthy_resolve_inject)

text \<open>With no credential, nothing is wanted, so \<open>inject_api_keys\<close> returns a status.\<close>

lemma inject_api_keys_returns:
  assumes "\<not> check_api_keys w"
  shows "\<exists>st. inject_api_keys w = (Inr st, snd (inject_api_keys w))"
proof -
  have "\<not> refused p w" for p
  proof -
    from assms have "\<not> truthy (resolve p w)"
      by (simp add: check_api_keys_resolve)
    then show ?thesis
      by (auto simp: resolve_eq refused_def wanted_def split: if_splits)
  qed
  then have "\<exists>st. fst (inject_api_keys w) = Inr st"
    by (simp add: inject_api_keys_fst)
  then show ?thesis by (auto simp: prod_eq_iff)
qed

section \<open>The orchestrator\<close>

subsection \<open>What the start-up leaves alone\<close>

lemma config_step_refl [simp]: "config_step w w"
  by (simp add: config_step_def)

lemma config_step_trans: "config_step w w1 \<Longrightarrow> config_step w1 w2 \<Longrightarrow> config_step w w2"
  by (simp add: config_step_def)

lemma io_step_config: "io_step w w' \<Longrightarrow> config_step w w'"
  by (simp add: io_step_def config_step_def)

lemma config_step_print [simp]: "config_step w (print s w)"
  by (simp add: config_step_def print_def)

lemma config_step_clear [simp]: "config_step w (clear_auth_cache w)"
  by (simp add: config_step_def clear_auth_cache_def split: option.splits)

lemma config_step_save [simp]: "config_step w (save_email_to_cache e w)"
  by (simp add: config_step_def save_email_to_cache_def print_def split: option.splits)

lemma config_step_logout [simp]: "config_step w (logout w)"
  by (simp add: config_step_def logout_def print_def clear_auth_cache_def split: option.splits)

lemma config_step_authenticate: "config_step w (snd (authenticate w))"
proof -
  obtain r w1 where p: "prompt_for_email w = (r, w1)" by (cases "prompt_for_email w")
  with io_step_prompt_for_email [of w] have s1: "config_step w w1"
    by (simp add: io_step_config)
  show ?thesis
  proof (cases r)
    case (Inl e)
    with p s1 show ?thesis by (simp add: authenticate_def)
  next
    case (Inr email)
    let ?w1 = "print ''\<newline>Verifying email...'' w1"
    obtain r2 w2 where v: "verify_email email ?w1 = (r2, w2)"
      by (cases "verify_email email ?w1")
    with io_step_verify_email [of ?w1 email] have "config_step ?w1 w2"
      by (simp add: io_step_config)
    with s1 have s2: "config_step w w2"
      by (blast intro: config_step_trans config_step_print)
    show ?thesis
    proof (cases r2)
      case (Inl e)
      with p Inr v s2 show ?thesis by (simp add: authenticate_def)
    next
      case ok: (Inr b)
      from s2 have "config_step w (save_email_to_cache email (print s w2))" for s
        by (blast intro: config_step_trans config_step_print config_step_save)
      moreover from s2 have "config_step w (clear_auth_cache (prints ls w2))" for ls
        by (simp add: config_step_def prints_eq clear_auth_cache_def split: option.splits)
      ultimately show ?thesis using p Inr v ok
        by (simp add: authenticate_def)
    qed
  qed
qed

lemma config_step_check_help_flags: "config_step w (snd (check_help_flags w))"
  by (simp add: check_help_flags_def print_banner_def)

lemma config_step_main_startup: "config_step w (snd (main_startup w))"
proof -
  obtain r w1 where c: "check_help_flags w = (r, w1)" by (cases "check_help_flags w")
  with config_step_check_help_flags [of w] have s1: "config_step w w1" by simp
  let ?w2 = "print_banner w1"
  from s1 have s2: "config_step w ?w2"
    by (simp add: config_step_def print_banner_def print_def)
  show ?thesis
  proof (cases r)
    case (Inl e)
    with c s1 show ?thesis by (simp add: main_startup_def)
  next
    case (Inr u)
    show ?thesis
    proof (cases "''--logout'' \<in> set (argv ?w2)")
      case True
      from s2 have "config_step w (logout ?w2)"
        by (blast intro: config_step_trans config_step_logout)
      with c Inr True show ?thesis by (simp add: main_startup_def Let_def)
    next
      case no_logout: False
      show ?thesis
      proof (cases "''--skip-auth'' \<in> set (argv ?w2)")
        case True
        from s2 have "config_step w (print s (?w2\<lparr>argv := a\<rparr>))" for s a
          by (simp add: config_step_def print_def)
        with c Inr no_logout True show ?thesis by (simp add: main_startup_def Let_def)
      next
        case no_flag: False
        show ?thesis
        proof (cases "environ_get ?w2 ''RUNANYWHERE_SKIP_AUTH'' = Some ''1''")
          case True
          from s2 have "config_step w (print s ?w2)" for s
            by (blast intro: config_step_trans config_step_print)
          with c Inr no_logout no_flag True show ?thesis
            by (simp add: main_startup_def Let_def)
        next
          case False
          obtain r4 w4 where a: "authenticate ?w2 = (r4, w4)" by (cases "authenticate ?w2")
          with config_step_authenticate [of ?w2] s2 have s4: "config_step w w4"
            by (auto intro: config_step_trans)
          then have "config_step w (print s w4)" for s
            by (blast intro: config_step_trans config_step_print)
          with c Inr no_logout no_flag False a s4 show ?thesis
            by (cases r4) (simp_all add: main_startup_def Let_def)
        qed
      qed
    qed
  qed
qed

subsection \<open>No credential is fatal\<close>

lemma main_session_no_keys:
  assumes "\<not> check_api_keys (snd (inject_api_keys w))"
  shows "main_session w =
     (Inl (SystemExit 1), prints no_keys_message (snd (inject_api_keys w)))"
proof -
  from assms have "\<not> check_api_keys w" by (simp add: check_api_keys_inject)
  then obtain st where "inject_api_keys w = (Inr st, snd (inject_api_keys w))"
    using inject_api_keys_returns by blast
  then obtain w1 where inj: "inject_api_keys w = (Inr st, w1)" by blast
  with assms have "\<not> check_api_keys w1" by simp
  with inj show ?thesis by (simp add: main_session_def)
qed

lemma names_in_message: "\<exists>l \<in> set no_keys_message. contains l (env_var p)"
proof (cases p)
  case Anthropic
  have "contains ''  - ANTHROPIC_API_KEY (for Claude models)'' ''ANTHROPIC_API_KEY''"
    by (simp add: startswith_def)
  then show ?thesis using Anthropic by (simp add: no_keys_message_def)
next
  case OpenAI
  have "contains ''  - OPENAI_API_KEY (for GPT models)'' ''OPENAI_API_KEY''"
    by (simp add: startswith_def)
  then show ?thesis using OpenAI by (simp add: no_keys_message_def)
qed

text \<open>
  C3: \<open>check_api_keys\<close> is true exactly when one of the two providers resolves to a
  non-empty secret. Whenever \<open>main\<close> gets as far as its key check and the check is
  false, \<open>main\<close> ends with \<open>SystemExit(1)\<close>, what it prints last is the message that
  names both environment variables, and the host's entry point has not been called. With
  no credential available, no run of \<open>main\<close> calls the host at all.
\<close>

theorem missing_credentials_fatal:
  "(check_api_keys w \<longleftrightarrow> (\<exists>p. truthy (resolve p w))) \<and>
   (\<forall>w1. main_startup w = (Inr (), w1) \<longrightarrow> \<not> check_api_keys (snd (inject_api_keys w1)) \<longrightarrow>
      fst (main w) = Inl (SystemExit 1) \<and>
      stdout (snd (main w)) = stdout w1 @ no_keys_message \<and>
      host_calls (snd (main w)) = host_calls w) \<and>
   (\<forall>p. \<exists>l \<in> set no_keys_message. contains l (env_var p)) \<and>
   (\<not> check_api_keys w \<longrightarrow> host_calls (snd (main w)) = host_calls w)"
proof -
  have fatal: "fst (main w) = Inl (SystemExit 1) \<and>
      stdout (snd (main w)) = stdout w1 @ no_keys_message \<and>
      host_calls (snd (main w)) = host_calls w"
    if start: "main_startup w = (Inr (), w1)"
      and none: "\<not> check_api_keys (snd (inject_api_keys w1))" for w1
  proof -
    from config_step_main_startup [of w] start have "host_calls w1 = host_calls w"
      by (simp add: config_step_def)
    with start main_session_no_keys [OF none] show ?thesis
      by (simp add: main_def prints_eq)
  qed
  have never: "host_calls (snd (main w)) = host_calls w" if none: "\<not> check_api_keys w"
  proof -
    obtain r w1 where start: "main_startup w = (r, w1)" by (cases "main_startup w")
    with config_step_main_startup [of w] have step: "config_step w w1" by simp
    show ?thesis
    proof (cases r)
      case (Inl e)
      with start step show ?thesis by (simp add: main_def config_step_def)
    next
      case (Inr u)
      from step none have "\<not> check_api_keys (snd (inject_api_keys w1))"
        by (simp add: check_api_keys_inject check_api_keys_config_step)
      with fatal [of w1] start Inr show ?thesis by simp
    qed
  qed
  from check_api_keys_resolve [of w] fatal never names_in_message show ?thesis
    by blast
qed

theorem missing_credentials_fatal_witness:
  "main_startup skip_auth_world = (Inr (), snd (main_startup skip_auth_world)) \<and>
   \<not> check_api_keys (snd (inject_api_keys (snd (main_startup skip_auth_world)))) \<and>
   \<not> check_api_keys skip_auth_world \<and>
   fst (main skip_auth_world) = Inl (SystemExit 1) \<and>
   stdout (snd (main skip_auth_world))
     = stdout (snd (main_startup skip_auth_world)) @ no_keys_message \<and>
   host_calls (snd (main skip_auth_world)) = []"
proof -
  have "fst (main_startup skip_auth_world) = Inr ()"
    by code_simp
  then have h1: "main_startup skip_auth_world = (Inr (), snd (main_startup skip_auth_world))"
    by (simp add: prod_eq_iff)
  have h2: "\<not> check_api_keys (snd (inject_api_keys (snd (main_startup skip_auth_world))))"
    by code_simp
  have h3: "\<not> check_api_keys skip_auth_world"
    by code_simp
  have h4: "host_calls skip_auth_world = []"
    by (simp add: skip_auth_world_def bare_world_def)
  from missing_credentials_fatal [of skip_auth_world] h1 h2
  have "fst (main skip_auth_world) = Inl (SystemExit 1) \<and>
        stdout (snd (main skip_auth_world))
          = stdout (snd (main_startup skip_auth_world)) @ no_keys_message \<and>
        host_calls (snd (main skip_auth_world)) = host_calls skip_auth_world"
    by blast
  with h1 h2 h3 h4 show ?thesis by simp
qed

end
